theory Spec2Isabelle
  imports Complex_Main "HOL-Library.Multiset"
begin

section \<open>Conventions of the embedding\<close>

text \<open>
  The TypeScript sources embedded here are
  \<^verbatim>\<open>taskmaster-pro/types/index.ts\<close>, \<^verbatim>\<open>taskmaster-pro/services/SchedulingService.ts\<close>
  and the \<^verbatim>\<open>GeminiService\<close> class.

  \<^item> A JavaScript number that the declared types keep finite is a rational (\<open>rat\<close>), a count
    or a \<^verbatim>\<open>TaskPriority\<close> a \<open>nat\<close>; the arithmetic is exact, the rounding of IEEE doubles
    is not modelled.
  \<^item> A \<^verbatim>\<open>Date\<close> is its time value in milliseconds, or \<open>InvalidDate\<close> (time value NaN).
  \<^item> Every reading of the clock (\<^verbatim>\<open>new Date()\<close>, \<^verbatim>\<open>Date.now()\<close>) is an argument of the
    function that reads it.
  \<^item> A thrown exception is the left summand of \<open>error + 'a\<close>.
  \<^item> A string is a list of code units below 256.
  \<^item> \<^verbatim>\<open>async\<close>/\<^verbatim>\<open>await\<close> and the artificial \<^verbatim>\<open>setTimeout\<close> delays have no effect on
    the values computed and are left out.
\<close>

datatype error = TypeError | SyntaxError | ApiError

definition bind_err :: "error + 'a \<Rightarrow> ('a \<Rightarrow> error + 'b) \<Rightarrow> error + 'b" where
  "bind_err m f = (case m of Inl e \<Rightarrow> Inl e | Inr x \<Rightarrow> f x)"

section \<open>Data model (types/index.ts)\<close>

text \<open>
  Field names are those of the source, except where the name is taken: \<open>task_id\<close> and
  \<open>plan_id\<close> for \<^verbatim>\<open>id\<close>, \<open>task_notes\<close> for \<^verbatim>\<open>notes\<close>, \<open>inf_value\<close> for \<^verbatim>\<open>value\<close>,
  \<open>plan_date\<close> for \<^verbatim>\<open>date\<close>, \<open>sec_now\<close>, \<open>sec_next\<close> and \<open>sec_later\<close> for the three
  sections, \<open>parseConfidence\<close> for the \<^verbatim>\<open>confidence\<close> of a parse result.
\<close>

datatype date = Date int | InvalidDate

datatype InferenceConfidence = Low | Medium | High

type_synonym TaskPriority = nat

record 'v Inference =
  inf_value :: 'v
  confidence :: InferenceConfidence
  rationale :: string

datatype InferenceField = FPriority | FDuration | FDeadline | FCategory

datatype InferenceValue = NumberValue nat | DateValue date | StringValue string

text \<open>
  The \<^verbatim>\<open>inferences\<close> object: its own keys in insertion order (the order of
  \<^verbatim>\<open>Object.values\<close> and \<^verbatim>\<open>Object.entries\<close>). An optional property may be present and
  hold \<^verbatim>\<open>undefined\<close>, which is \<open>None\<close> here; an absent key has no pair.
\<close>

type_synonym 'v Inferences = "(InferenceField \<times> 'v Inference option) list"

record StructuredTask =
  task_id :: string
  title :: string
  deadline :: "date option"
  priority :: "TaskPriority option"
  duration :: "nat option"
  dependencies :: "string list option"
  task_notes :: "string option"
  category :: "string option"
  splittable :: "bool option"

record InferredTask = StructuredTask +
  inferences :: "InferenceValue Inferences"
  conditionalHints :: "string list"

record HardCommitment =
  hc_id :: string
  hc_title :: string
  startTime :: date
  endTime :: date
  description :: "string option"

record PlanningSettings =
  workingHours :: "string \<times> string"
  weekendsEnabled :: bool
  focusBlockLength :: nat
  breakBuffer :: nat
  hardCommitments :: "HardCommitment list"

record PriorityScore =
  urgency :: rat
  importance :: rat
  effortFit :: rat
  dependencyReady :: rat
  slackRisk :: rat
  uncertaintyPenalty :: rat
  total :: rat

record Explainability =
  factors :: "(string \<times> rat) list"
  assumptions :: "string list"
  conditionalGuidance :: "string list"

record PlannedTask =
  task :: InferredTask
  timeWindow :: "(date \<times> date) option"
  priorityScore :: PriorityScore
  schedulingReason :: string
  explainability :: Explainability

record Sections =
  sec_now :: "PlannedTask list"
  sec_next :: "PlannedTask list"
  sec_later :: "PlannedTask list"

record PlanMetadata =
  totalTasks :: nat
  totalDuration :: nat
  planningDate :: date

record DailyPlan =
  plan_id :: string
  plan_date :: date
  sections :: Sections
  ambiguousTasks :: "string list"
  overdueTasks :: "PlannedTask list"
  metadata :: PlanMetadata

section \<open>SchedulingService.ts\<close>

subsection \<open>calculatePriorityScore\<close>

text \<open>One round of the \<^verbatim>\<open>forEach\<close> over \<^verbatim>\<open>Object.values(task.inferences)\<close>: reading
  \<^verbatim>\<open>.confidence\<close> of \<^verbatim>\<open>undefined\<close> throws.\<close>

fun penaltyStep :: "rat \<Rightarrow> 'v Inference option \<Rightarrow> error + rat" where
  "penaltyStep acc None = Inl TypeError"
| "penaltyStep acc (Some inference) =
     Inr (if confidence inference = Low then acc + 1 / 10
          else if confidence inference = Medium then acc + 5 / 100
          else acc)"

fun penaltyLoop :: "rat \<Rightarrow> 'v Inference option list \<Rightarrow> error + rat" where
  "penaltyLoop acc [] = Inr acc"
| "penaltyLoop acc (v # vs) =
     (case penaltyStep acc v of Inl e \<Rightarrow> Inl e | Inr acc' \<Rightarrow> penaltyLoop acc' vs)"

definition urgencyOf :: "int \<Rightarrow> date option \<Rightarrow> rat" where
  "urgencyOf nowMs dl =
     (case dl of
        None \<Rightarrow> 5 / 10
      | Some InvalidDate \<Rightarrow> 3 / 10
      | Some (Date t) \<Rightarrow>
          (let timeToDeadline = t - nowMs;
               hoursToDeadline = (of_int timeToDeadline :: rat) / (1000 * 60 * 60)
           in if hoursToDeadline < 4 then 1
              else if hoursToDeadline < 24 then 9 / 10
              else if hoursToDeadline < 72 then 7 / 10
              else 3 / 10))"

definition importanceOf :: "TaskPriority option \<Rightarrow> rat" where
  "importanceOf p =
     (case p of None \<Rightarrow> 6 / 10
      | Some n \<Rightarrow> if n \<noteq> 0 then of_nat n / 5 else 6 / 10)"

definition calculatePriorityScore ::
  "int \<Rightarrow> InferredTask \<Rightarrow> PlanningSettings \<Rightarrow> date \<Rightarrow> error + PriorityScore" where
  "calculatePriorityScore nowMs tsk settings planDate =
     (let u = urgencyOf nowMs (deadline tsk);
          i = importanceOf (priority tsk);
          ef = 1; dr = 1; sr = 1
      in bind_err (penaltyLoop 0 (map snd (inferences tsk))) (\<lambda>pen.
           let baseScore = (u * (3 / 10)) + (i * (25 / 100)) + (ef * (15 / 100))
                           + (dr * (15 / 100)) + (sr * (15 / 100))
           in Inr \<lparr> urgency = u, importance = i, effortFit = ef, dependencyReady = dr,
                    slackRisk = sr, uncertaintyPenalty = pen,
                    total = max 0 (baseScore - pen) \<rparr>))"

subsection \<open>generateSchedulingReason, extractAssumptions, scheduleTasks\<close>

fun joinWith :: "string \<Rightarrow> string list \<Rightarrow> string" where
  "joinWith sep [] = []"
| "joinWith sep [x] = x"
| "joinWith sep (x # y # ys) = x @ sep @ joinWith sep (y # ys)"

definition generateSchedulingReason :: "InferredTask \<Rightarrow> PriorityScore \<Rightarrow> string" where
  "generateSchedulingReason tsk score =
     (let r1 = (if urgency score > 8 / 10 then [''urgent deadline'']
                else if urgency score > 6 / 10 then [''approaching deadline''] else []);
          r2 = (if importance score > 8 / 10 then [''high priority'']
                else if importance score < 4 / 10 then [''lower priority''] else []);
          r3 = (if uncertaintyPenalty score > 1 / 10
                then [''adjusted for inference uncertainty''] else []);
          reasons = r1 @ r2 @ r3
      in if length reasons > 0 then ''Scheduled due to '' @ joinWith '', '' reasons @ ''.''
         else ''Scheduled based on availability.'')"

fun fieldName :: "InferenceField \<Rightarrow> string" where
  "fieldName FPriority = ''priority''"
| "fieldName FDuration = ''duration''"
| "fieldName FDeadline = ''deadline''"
| "fieldName FCategory = ''category''"

fun assumptionsLoop :: "(InferenceField \<times> 'v Inference option) list \<Rightarrow> error + string list" where
  "assumptionsLoop [] = Inr []"
| "assumptionsLoop ((field, None) # es) = Inl TypeError"
| "assumptionsLoop ((field, Some inference) # es) =
     bind_err (assumptionsLoop es) (\<lambda>rest.
       Inr (if confidence inference = Low \<or> confidence inference = Medium
            then (fieldName field @ '': '' @ rationale inference) # rest
            else rest))"

definition extractAssumptions :: "InferredTask \<Rightarrow> error + string list" where
  "extractAssumptions tsk = assumptionsLoop (inferences tsk)"

definition planTask :: "InferredTask \<Rightarrow> PriorityScore \<Rightarrow> error + PlannedTask" where
  "planTask tsk score =
     (let reason = generateSchedulingReason tsk score
      in bind_err (extractAssumptions tsk) (\<lambda>as.
           Inr \<lparr> task = tsk, timeWindow = None, priorityScore = score,
                 schedulingReason = reason,
                 explainability =
                   \<lparr> factors = [(''urgency'', urgency score), (''importance'', importance score),
                                (''effortFit'', effortFit score),
                                (''dependencyReady'', dependencyReady score),
                                (''slackRisk'', slackRisk score),
                                (''uncertaintyPenalty'', uncertaintyPenalty score)],
                     assumptions = as,
                     conditionalGuidance = conditionalHints tsk \<rparr> \<rparr>))"

fun scheduleTasks ::
  "(InferredTask \<times> PriorityScore) list \<Rightarrow> PlanningSettings \<Rightarrow> date \<Rightarrow> error + PlannedTask list" where
  "scheduleTasks [] settings planDate = Inr []"
| "scheduleTasks ((tsk, score) # items) settings planDate =
     bind_err (planTask tsk score) (\<lambda>p.
       bind_err (scheduleTasks items settings planDate) (\<lambda>ps. Inr (p # ps)))"

subsection \<open>categorizeTasks, identifyOverdueTasks\<close>

definition categorizeStep :: "Sections \<Rightarrow> PlannedTask \<Rightarrow> Sections" where
  "categorizeStep secs p =
     (if urgency (priorityScore p) > 8 / 10 \<or> total (priorityScore p) > 8 / 10
      then secs\<lparr> sec_now := sec_now secs @ [p] \<rparr>
      else if total (priorityScore p) > 5 / 10
      then secs\<lparr> sec_next := sec_next secs @ [p] \<rparr>
      else secs\<lparr> sec_later := sec_later secs @ [p] \<rparr>)"

definition categorizeTasks :: "PlannedTask list \<Rightarrow> date \<Rightarrow> PlanningSettings \<Rightarrow> Sections" where
  "categorizeTasks plannedTasks planDate settings =
     foldl categorizeStep \<lparr> sec_now = [], sec_next = [], sec_later = [] \<rparr> plannedTasks"

definition isOverdue :: "int \<Rightarrow> InferredTask \<Rightarrow> bool" where
  "isOverdue nowMs tsk =
     (case deadline tsk of Some (Date t) \<Rightarrow> t < nowMs | _ \<Rightarrow> False)"

definition identifyOverdueTasks :: "int \<Rightarrow> PlannedTask list \<Rightarrow> date \<Rightarrow> PlannedTask list" where
  "identifyOverdueTasks nowMs plannedTasks planDate =
     filter (\<lambda>p. isOverdue nowMs (task p)) plannedTasks"

subsection \<open>generateDailyPlan\<close>

text \<open>\<^verbatim>\<open>tasks.map(task => ({task, score: ...}))\<close>: the \<open>k\<close>-th call of
  \<^verbatim>\<open>calculatePriorityScore\<close> reads the clock for the \<open>k\<close>-th time.\<close>

fun scoreTasks ::
  "(nat \<Rightarrow> int) \<Rightarrow> nat \<Rightarrow> InferredTask list \<Rightarrow> PlanningSettings \<Rightarrow> date
     \<Rightarrow> error + (InferredTask \<times> PriorityScore) list" where
  "scoreTasks clock k [] settings planDate = Inr []"
| "scoreTasks clock k (tsk # tsks) settings planDate =
     bind_err (calculatePriorityScore (clock k) tsk settings planDate) (\<lambda>score.
       bind_err (scoreTasks clock (Suc k) tsks settings planDate) (\<lambda>rest.
         Inr ((tsk, score) # rest)))"

fun digitChar :: "nat \<Rightarrow> char" where
  "digitChar n = char_of (48 + n)"

fun showNat :: "nat \<Rightarrow> string" where
  "showNat n = (if n < 10 then [digitChar n] else showNat (n div 10) @ [digitChar (n mod 10)])"

declare showNat.simps [simp del]

definition showInt :: "int \<Rightarrow> string" where
  "showInt i = (if i < 0 then ''-'' @ showNat (nat (- i)) else showNat (nat i))"

fun getTimeString :: "date \<Rightarrow> string" where
  "getTimeString (Date t) = showInt t"
| "getTimeString InvalidDate = ''NaN''"

definition generateDailyPlan ::
  "(nat \<Rightarrow> int) \<Rightarrow> InferredTask list \<Rightarrow> PlanningSettings \<Rightarrow> date \<Rightarrow> error + DailyPlan" where
  "generateDailyPlan clock tasks settings planDate =
     bind_err (scoreTasks clock 0 tasks settings planDate) (\<lambda>scoredTasks.
       let sorted = sort_key (\<lambda>a. - total (snd a)) scoredTasks
       in bind_err (scheduleTasks sorted settings planDate) (\<lambda>plannedTasks.
         let n = length tasks;
             secs = categorizeTasks plannedTasks planDate settings;
             overdue = identifyOverdueTasks (clock n) plannedTasks planDate
         in Inr \<lparr> plan_id = ''plan-'' @ getTimeString planDate @ ''-'' @ showInt (clock (n + 1)),
                  plan_date = planDate,
                  sections = secs,
                  ambiguousTasks = [],
                  overdueTasks = overdue,
                  metadata =
                    \<lparr> totalTasks = length tasks,
                      totalDuration =
                        foldl (\<lambda>sum tsk. sum + (case duration tsk of None \<Rightarrow> 0 | Some d \<Rightarrow> d))
                          0 tasks,
                      planningDate = Date (clock (n + 2)) \<rparr> \<rparr>))"

section \<open>Strings and the regular expressions of GeminiService\<close>

text \<open>
  The regular expressions of the source use alternation of literals, \<^verbatim>\<open>\d+\<close>, \<^verbatim>\<open>\s*\<close>,
  \<^verbatim>\<open>\w+\<close>, \<^verbatim>\<open>!!+\<close> and a trailing \<^verbatim>\<open>s?\<close>. Each is embedded as a function giving the
  length of the match that starts at the head of a string. The greedy quantifiers need no
  backtracking here: what follows a \<^verbatim>\<open>\d+\<close> or \<^verbatim>\<open>\s*\<close> never starts with a character of
  the class just repeated, and nothing follows an alternative, \<^verbatim>\<open>\w+\<close>, \<^verbatim>\<open>!!+\<close> or \<^verbatim>\<open>s?\<close>.
  With the \<^verbatim>\<open>i\<close> flag and no \<^verbatim>\<open>u\<close> flag a pattern letter matches exactly its two ASCII
  cases.
\<close>

definition lowerChar :: "char \<Rightarrow> char" where
  "lowerChar c =
     (case map_of (zip ''ABCDEFGHIJKLMNOPQRSTUVWXYZ'' ''abcdefghijklmnopqrstuvwxyz'') c of
        Some l \<Rightarrow> l | None \<Rightarrow> c)"

definition toLowerCase :: "string \<Rightarrow> string" where
  "toLowerCase s = map lowerChar s"

definition isDigit :: "char \<Rightarrow> bool" where
  "isDigit c \<longleftrightarrow> c \<in> set ''0123456789''"

definition isWordChar :: "char \<Rightarrow> bool" where
  "isWordChar c \<longleftrightarrow>
     c \<in> set ''abcdefghijklmnopqrstuvwxyzABCDEFGHIJKLMNOPQRSTUVWXYZ0123456789_''"

text \<open>\<^verbatim>\<open>\s\<close> and the characters removed by \<^verbatim>\<open>trim()\<close>, among the code units below 256:
  TAB, LF, VT, FF, CR, space and the no-break space U+00A0.\<close>

definition isSpace :: "char \<Rightarrow> bool" where
  "isSpace c \<longleftrightarrow> of_char c \<in> set [9, 10, 11, 12, 13, 32, 160 :: nat]"

definition trim :: "string \<Rightarrow> string" where
  "trim s = rev (dropWhile isSpace (rev (dropWhile isSpace s)))"

text \<open>\<^verbatim>\<open>s.split('\n')\<close>: always at least one piece.\<close>

fun splitLines :: "string \<Rightarrow> string list" where
  "splitLines [] = [[]]"
| "splitLines (c # cs) =
     (if c = CHR 0x0A then [] # splitLines cs
      else (case splitLines cs of l # ls \<Rightarrow> (c # l) # ls | [] \<Rightarrow> [[c]]))"

text \<open>A literal of a case-insensitive pattern (given in lower case) at the head of \<open>s\<close>.\<close>

definition literalAt :: "string \<Rightarrow> string \<Rightarrow> nat option" where
  "literalAt lit s =
     (if length lit \<le> length s \<and> toLowerCase (take (length lit) s) = lit
      then Some (length lit) else None)"

text \<open>An alternation: the first alternative that matches wins.\<close>

fun firstAlt :: "(string \<Rightarrow> 'a option) list \<Rightarrow> string \<Rightarrow> 'a option" where
  "firstAlt [] s = None"
| "firstAlt (m # ms) s = (case m s of Some r \<Rightarrow> Some r | None \<Rightarrow> firstAlt ms s)"

text \<open>\<^verbatim>\<open>RegExp.prototype.exec\<close> without the \<^verbatim>\<open>g\<close> flag: the match at the leftmost position
  that has one.\<close>

fun execFirst :: "(string \<Rightarrow> 'a option) \<Rightarrow> string \<Rightarrow> 'a option" where
  "execFirst m [] = m []"
| "execFirst m (c # cs) = (case m (c # cs) of Some r \<Rightarrow> Some r | None \<Rightarrow> execFirst m cs)"

definition regexTest :: "(string \<Rightarrow> 'a option) \<Rightarrow> string \<Rightarrow> bool" where
  "regexTest m s \<longleftrightarrow> execFirst m s \<noteq> None"

text \<open>\<^verbatim>\<open>s.replace(/.../g, rep)\<close> for a pattern whose matches are never empty: matches are
  taken left to right and do not overlap.\<close>

function replaceAll :: "(string \<Rightarrow> nat option) \<Rightarrow> string \<Rightarrow> string \<Rightarrow> string" where
  "replaceAll m rep [] = []"
| "replaceAll m rep (c # cs) =
     (case m (c # cs) of
        None \<Rightarrow> c # replaceAll m rep cs
      | Some n \<Rightarrow> (if n = 0 then c # replaceAll m rep cs
                   else rep @ replaceAll m rep (drop n (c # cs))))"
  by pat_completeness auto
termination
  by (relation "measure (\<lambda>(m, rep, s). length s)") auto

subsection \<open>The patterns\<close>

text \<open>\<^verbatim>\<open>/urgent|asap|critical|!!!/i\<close>, \<^verbatim>\<open>/important|high|!!/i\<close>,
  \<^verbatim>\<open>/low|minor|when time/i\<close>\<close>

definition reUrgent :: "string \<Rightarrow> nat option" where
  "reUrgent = firstAlt (map literalAt [''urgent'', ''asap'', ''critical'', ''!!!''])"

definition reImportant :: "string \<Rightarrow> nat option" where
  "reImportant = firstAlt (map literalAt [''important'', ''high'', ''!!''])"

definition reLow :: "string \<Rightarrow> nat option" where
  "reLow = firstAlt (map literalAt [''low'', ''minor'', ''when time''])"

text \<open>\<^verbatim>\<open>/(\d+)\s*(hour|hr|min|minute)s?/i\<close>: the digits (group 1), the unit as written
  (group 2) and the length of the whole match.\<close>

definition reDuration :: "string \<Rightarrow> (string \<times> string \<times> nat) option" where
  "reDuration s =
     (let digits = takeWhile isDigit s;
          afterDigits = dropWhile isDigit s;
          spaces = takeWhile isSpace afterDigits;
          afterSpaces = dropWhile isSpace afterDigits
      in if digits = [] then None
         else (case firstAlt (map literalAt [''hour'', ''hr'', ''min'', ''minute'']) afterSpaces of
                 None \<Rightarrow> None
               | Some k \<Rightarrow>
                   (let unit = take k afterSpaces;
                        afterUnit = drop k afterSpaces;
                        plural = (case literalAt ''s'' afterUnit of Some j \<Rightarrow> j | None \<Rightarrow> 0)
                    in Some (digits, unit, length digits + length spaces + k + plural))))"

definition reDurationLen :: "string \<Rightarrow> nat option" where
  "reDurationLen s = map_option (\<lambda>(digits, unit, n). n) (reDuration s)"

text \<open>\<^verbatim>\<open>/research|analyze|develop|create/i\<close>, \<^verbatim>\<open>/write|review|plan/i\<close>,
  \<^verbatim>\<open>/research|analyze|develop|design|create|build/i\<close>, \<^verbatim>\<open>/check|review|send|call|email/i\<close>\<close>

definition reComplexParse :: "string \<Rightarrow> nat option" where
  "reComplexParse = firstAlt (map literalAt [''research'', ''analyze'', ''develop'', ''create''])"

definition reMediumParse :: "string \<Rightarrow> nat option" where
  "reMediumParse = firstAlt (map literalAt [''write'', ''review'', ''plan''])"

definition reComplexInfer :: "string \<Rightarrow> nat option" where
  "reComplexInfer =
     firstAlt (map literalAt [''research'', ''analyze'', ''develop'', ''design'', ''create'', ''build''])"

definition reQuickInfer :: "string \<Rightarrow> nat option" where
  "reQuickInfer = firstAlt (map literalAt [''check'', ''review'', ''send'', ''call'', ''email''])"

text \<open>\<^verbatim>\<open>by \w+\<close> and \<^verbatim>\<open>due \w+\<close>: the literal with its space, then a non-empty greedy run
  of word characters.\<close>

definition literalWord :: "string \<Rightarrow> string \<Rightarrow> nat option" where
  "literalWord lit s =
     (case literalAt lit s of
        None \<Rightarrow> None
      | Some k \<Rightarrow> (let w = takeWhile isWordChar (drop k s)
                   in if w = [] then None else Some (k + length w)))"

text \<open>\<^verbatim>\<open>/(today|tomorrow|by (\w+)|due (\w+))/i\<close>\<close>

definition reDeadline :: "string \<Rightarrow> nat option" where
  "reDeadline = firstAlt [literalAt ''today'', literalAt ''tomorrow'',
                          literalWord ''by '', literalWord ''due '']"

text \<open>The text of group 1 of the first deadline match.\<close>

definition reDeadlineText :: "string \<Rightarrow> string option" where
  "reDeadlineText s = map_option (\<lambda>n. take n s) (reDeadline s)"

text \<open>\<^verbatim>\<open>/urgent|asap|critical|important|high|low|minor|!!+/gi\<close>\<close>

definition bangs :: "string \<Rightarrow> nat option" where
  "bangs s = (let n = length (takeWhile (\<lambda>c. c = CHR ''!'') s)
              in if 2 \<le> n then Some n else None)"

definition reKeywords :: "string \<Rightarrow> nat option" where
  "reKeywords =
     firstAlt (map literalAt [''urgent'', ''asap'', ''critical'', ''important'', ''high'', ''low'',
                              ''minor''] @ [bangs])"

text \<open>\<^verbatim>\<open>/\s+/g\<close>\<close>

definition reSpaces :: "string \<Rightarrow> nat option" where
  "reSpaces s = (let n = length (takeWhile isSpace s) in if 1 \<le> n then Some n else None)"

text \<open>\<^verbatim>\<open>parseInt\<close> of a non-empty string of decimal digits (exact; a double rounds beyond
  2^53).\<close>

definition digitValue :: "char \<Rightarrow> nat" where
  "digitValue c = of_char c - 48"

definition parseInt :: "string \<Rightarrow> nat" where
  "parseInt digits = foldl (\<lambda>acc c. 10 * acc + digitValue c) 0 digits"

section \<open>GeminiService: the local strategies\<close>

subsection \<open>generateConditionalHints\<close>

definition generateConditionalHints :: "TaskPriority \<Rightarrow> nat \<Rightarrow> string list" where
  "generateConditionalHints p d =
     (if p \<ge> 4
      then [''If priority drops to medium, this task will be rescheduled after other high-priority items.'']
      else [])
     @ (if d > 90
        then [''This task may be split into smaller blocks if schedule is tight.'']
        else [])
     @ (if p \<le> 2
        then [''This task will be scheduled in available time slots after higher priority work.'']
        else [])"

subsection \<open>parseTaskLine\<close>

text \<open>What one call of \<^verbatim>\<open>parseTaskLine\<close> takes from outside: the id made of \<^verbatim>\<open>Date.now()\<close> and
  \<^verbatim>\<open>Math.random()\<close>, and the two local dates \<^verbatim>\<open>new Date(y, m, d, 17, 0)\<close> for today and
  tomorrow.\<close>

record LineEnv =
  freshId :: string
  today17 :: date
  tomorrow17 :: date

definition linePriority :: "string \<Rightarrow> TaskPriority \<times> InferenceConfidence \<times> string" where
  "linePriority line =
     (if regexTest reUrgent line then (5, High, ''Detected urgency keywords'')
      else if regexTest reImportant line then (4, Medium, ''Detected importance keywords'')
      else if regexTest reLow line then (2, Medium, ''Detected low priority indicators'')
      else (3, Low, ''Assumed medium priority (no indicators found)''))"

definition lineDuration :: "string \<Rightarrow> nat \<times> InferenceConfidence \<times> string" where
  "lineDuration line =
     (case execFirst reDuration line of
        Some (digits, unit, n) \<Rightarrow>
          (let v = parseInt digits
           in (if take 1 (toLowerCase unit) = ''h'' then v * 60 else v, High, ''Extracted from text''))
      | None \<Rightarrow>
          (if length line > 100 \<or> regexTest reComplexParse line
           then (120, Low, ''Estimated based on task complexity'')
           else if length line > 50 \<or> regexTest reMediumParse line
           then (60, Low, ''Estimated based on task type'')
           else (30, Low, ''Default estimate for simple tasks'')))"

definition lineDeadline :: "LineEnv \<Rightarrow> string \<Rightarrow> (date \<times> InferenceConfidence \<times> string) option" where
  "lineDeadline env line =
     (case execFirst reDeadlineText line of
        None \<Rightarrow> None
      | Some g \<Rightarrow>
          (if toLowerCase g = ''today''
           then Some (today17 env, High, ''Due today by end of work day'')
           else if toLowerCase g = ''tomorrow''
           then Some (tomorrow17 env, High, ''Due tomorrow by end of work day'')
           else None))"

definition cleanTitle :: "string \<Rightarrow> string" where
  "cleanTitle line =
     trim (replaceAll reSpaces '' ''
            (replaceAll reDeadline ''''
              (replaceAll reDurationLen ''''
                (replaceAll reKeywords '''' line))))"

definition parseTaskLine :: "LineEnv \<Rightarrow> string \<Rightarrow> InferredTask option" where
  "parseTaskLine env line =
     (case linePriority line of (p, priorityConfidence, priorityRationale) \<Rightarrow>
      case lineDuration line of (d, durationConfidence, durationRationale) \<Rightarrow>
      let dl = lineDeadline env line;
          ttl = cleanTitle line
      in if length ttl = 0 then None
         else Some
           \<lparr> task_id = freshId env, title = ttl, deadline = map_option fst dl,
             priority = Some p, duration = Some d, dependencies = None, task_notes = None,
             category = None, splittable = None,
             inferences =
               [(FPriority, Some \<lparr> inf_value = NumberValue p, confidence = priorityConfidence,
                                   rationale = priorityRationale \<rparr>),
                (FDuration, Some \<lparr> inf_value = NumberValue d, confidence = durationConfidence,
                                   rationale = durationRationale \<rparr>)]
               @ (case dl of
                    None \<Rightarrow> []
                  | Some (dv, deadlineConfidence, deadlineRationale) \<Rightarrow>
                      [(FDeadline, Some \<lparr> inf_value = DateValue dv,
                                          confidence = deadlineConfidence,
                                          rationale = deadlineRationale \<rparr>)]),
             conditionalHints = generateConditionalHints p d \<rparr>)"

subsection \<open>mockGeminiParsing\<close>

record FreeformParseResult =
  extractedTasks :: "InferredTask list"
  ambiguousLines :: "string list"
  parsingErrors :: "string list"
  parseConfidence :: InferenceConfidence

text \<open>The loop over \<^verbatim>\<open>lines\<close>; \<open>envs i\<close> is what the call for \<^verbatim>\<open>lines[i]\<close> takes from
  outside.\<close>

fun parseLines ::
  "(nat \<Rightarrow> LineEnv) \<Rightarrow> nat \<Rightarrow> string list \<Rightarrow> InferredTask list \<times> string list
     \<Rightarrow> InferredTask list \<times> string list" where
  "parseLines envs i [] acc = acc"
| "parseLines envs i (l # ls) (tasks, ambiguous) =
     (let line = trim l
      in if length line = 0 then parseLines envs (Suc i) ls (tasks, ambiguous)
         else (case parseTaskLine (envs i) line of
                 Some taskMatch \<Rightarrow> parseLines envs (Suc i) ls (tasks @ [taskMatch], ambiguous)
               | None \<Rightarrow> parseLines envs (Suc i) ls (tasks, ambiguous @ [line])))"

definition mockGeminiParsing :: "(nat \<Rightarrow> LineEnv) \<Rightarrow> string \<Rightarrow> FreeformParseResult" where
  "mockGeminiParsing envs text =
     (let lines = filter (\<lambda>line. trim line \<noteq> []) (splitLines text)
      in case parseLines envs 0 lines ([], []) of (tasks, ambiguous) \<Rightarrow>
           \<lparr> extractedTasks = tasks, ambiguousLines = ambiguous, parsingErrors = [],
             parseConfidence = (if length tasks > 0 then Medium else Low) \<rparr>)"

subsection \<open>mockFieldInference, inferTaskFields\<close>

definition inferPriority :: "int \<Rightarrow> date option \<Rightarrow> TaskPriority \<times> InferenceConfidence \<times> string" where
  "inferPriority nowMs dl =
     (case dl of
        Some (Date t) \<Rightarrow>
          (let hoursUntilDeadline = (of_int (t - nowMs) :: rat) / (1000 * 60 * 60)
           in if hoursUntilDeadline < 24
              then (5, High, ''High priority due to approaching deadline'')
              else if hoursUntilDeadline < 72
              then (4, Medium, ''Medium-high priority due to deadline in 3 days'')
              else (3, Medium, ''Default medium priority''))
      | _ \<Rightarrow> (3, Medium, ''Default medium priority''))"

definition inferDuration :: "string \<Rightarrow> nat \<times> InferenceConfidence \<times> string" where
  "inferDuration ttl =
     (if length ttl > 50 \<or> regexTest reComplexInfer ttl
      then (120, Medium, ''Estimated 2 hours based on task complexity'')
      else if length ttl < 20 \<and> regexTest reQuickInfer ttl
      then (30, Medium, ''Estimated 30 minutes for quick task'')
      else (60, Low, ''Default 1-hour estimate''))"

text \<open>\<^verbatim>\<open>!task.priority\<close> and \<^verbatim>\<open>!task.duration\<close>: absent, or the number 0.\<close>

definition falsyNumber :: "nat option \<Rightarrow> bool" where
  "falsyNumber v \<longleftrightarrow> (case v of None \<Rightarrow> True | Some n \<Rightarrow> n = 0)"

definition mockFieldInference :: "int \<Rightarrow> StructuredTask \<Rightarrow> string option \<Rightarrow> InferredTask" where
  "mockFieldInference nowMs tsk context =
     (let (inferences1, hints1) =
            (if falsyNumber (priority tsk)
             then (case inferPriority nowMs (deadline tsk) of (p, c, r) \<Rightarrow>
                     ([(FPriority, Some \<lparr> inf_value = NumberValue p, confidence = c, rationale = r \<rparr>)],
                      [''If this task is actually low priority, it will be scheduled after other medium priority tasks.'']))
             else ([], []));
          (inferences2, hints2) =
            (if falsyNumber (duration tsk)
             then (case inferDuration (title tsk) of (d, c, r) \<Rightarrow>
                     (inferences1 @ [(FDuration, Some \<lparr> inf_value = NumberValue d, confidence = c, rationale = r \<rparr>)],
                      hints1 @ [''Duration estimate can be adjusted. Shorter tasks will be scheduled in available gaps.'']))
             else (inferences1, hints1))
      in StructuredTask.extend tsk
           (InferredTask.fields inferences2 hints2))"

text \<open>Nothing in \<^verbatim>\<open>mockFieldInference\<close> throws, so the \<^verbatim>\<open>catch\<close> branch of
  \<^verbatim>\<open>inferTaskFields\<close> (the task with empty inferences) is never taken.\<close>

definition inferTaskFields :: "int \<Rightarrow> StructuredTask \<Rightarrow> string option \<Rightarrow> InferredTask" where
  "inferTaskFields nowMs tsk context = mockFieldInference nowMs tsk context"

section \<open>JavaScript values of the external payload\<close>

text \<open>
  The response of the external service is untyped. A number is \<open>NaN\<close>, an infinity or a
  finite value (an exact rational: doubles are not rounded here); a value is what
  \<^verbatim>\<open>JSON.parse\<close> and property access can produce. An object is the list of its own
  properties.
\<close>

datatype jsnum = NaN | NegInf | Fin rat | PosInf

datatype jsval =
    JUndefined
  | JNull
  | JBool bool
  | JNum jsnum
  | JStr string
  | JArr "jsval list"
  | JObj "(string \<times> jsval) list"

fun numLess :: "jsnum \<Rightarrow> jsnum \<Rightarrow> bool" where
  "numLess NaN _ = False"
| "numLess _ NaN = False"
| "numLess NegInf b = (b \<noteq> NegInf)"
| "numLess (Fin x) NegInf = False"
| "numLess (Fin x) (Fin y) = (x < y)"
| "numLess (Fin x) PosInf = True"
| "numLess PosInf _ = False"

text \<open>\<^verbatim>\<open>Math.min\<close> and \<^verbatim>\<open>Math.max\<close> of two numbers: \<open>NaN\<close> if either is.\<close>

definition mathMin :: "jsnum \<Rightarrow> jsnum \<Rightarrow> jsnum" where
  "mathMin a b = (if a = NaN \<or> b = NaN then NaN else if numLess b a then b else a)"

definition mathMax :: "jsnum \<Rightarrow> jsnum \<Rightarrow> jsnum" where
  "mathMax a b = (if a = NaN \<or> b = NaN then NaN else if numLess a b then b else a)"

text \<open>ToBoolean.\<close>

fun truthy :: "jsval \<Rightarrow> bool" where
  "truthy JUndefined = False"
| "truthy JNull = False"
| "truthy (JBool b) = b"
| "truthy (JNum n) = (n \<noteq> NaN \<and> n \<noteq> Fin 0)"
| "truthy (JStr s) = (s \<noteq> [])"
| "truthy (JArr xs) = True"
| "truthy (JObj kvs) = True"

text \<open>\<^verbatim>\<open>a || b\<close>\<close>

definition orElse :: "jsval \<Rightarrow> jsval \<Rightarrow> jsval" where
  "orElse a b = (if truthy a then a else b)"

text \<open>
  \<^verbatim>\<open>v.name\<close> for the property names this service reads (\<^verbatim>\<open>extractedTasks\<close>, \<^verbatim>\<open>id\<close>,
  \<^verbatim>\<open>title\<close>, \<^verbatim>\<open>inferences\<close>, \<^verbatim>\<open>value\<close>, \<^verbatim>\<open>candidates\<close>, ...): reading a property of
  \<^verbatim>\<open>null\<close> or \<^verbatim>\<open>undefined\<close> throws; an object gives its own property; none of these names
  is inherited from a prototype, so every other value gives \<^verbatim>\<open>undefined\<close>.
\<close>

fun getProp :: "jsval \<Rightarrow> string \<Rightarrow> error + jsval" where
  "getProp JUndefined name = Inl TypeError"
| "getProp JNull name = Inl TypeError"
| "getProp (JObj kvs) name = Inr (case map_of kvs name of Some v \<Rightarrow> v | None \<Rightarrow> JUndefined)"
| "getProp v name = Inr JUndefined"

text \<open>\<^verbatim>\<open>v?.name\<close>\<close>

definition optProp :: "jsval \<Rightarrow> string \<Rightarrow> error + jsval" where
  "optProp v name = (if v = JUndefined \<or> v = JNull then Inr JUndefined else getProp v name)"

text \<open>\<^verbatim>\<open>v?.[0]\<close>\<close>

fun optFirst :: "jsval \<Rightarrow> jsval" where
  "optFirst (JArr (x # xs)) = x"
| "optFirst (JStr (c # cs)) = JStr [c]"
| "optFirst (JObj kvs) = (case map_of kvs ''0'' of Some v \<Rightarrow> v | None \<Rightarrow> JUndefined)"
| "optFirst v = JUndefined"

text \<open>
  ToString and ToPrimitive throw for an object that has an own (hence not callable)
  \<^verbatim>\<open>toString\<close> property, and for an array that holds one, however deep.
\<close>

fun throwsToString :: "jsval \<Rightarrow> bool" where
  "throwsToString (JObj kvs) = (''toString'' \<in> set (map fst kvs))"
| "throwsToString (JArr xs) = list_ex throwsToString xs"
| "throwsToString v = False"

subsection \<open>StringToNumber\<close>

definition hexValue :: "char \<Rightarrow> nat option" where
  "hexValue c = map_of (zip ''0123456789abcdefABCDEF''
                  [0, 1, 2, 3, 4, 5, 6, 7, 8, 9, 10, 11, 12, 13, 14, 15, 10, 11, 12, 13, 14, 15]) c"

definition digitsBelow :: "nat \<Rightarrow> string \<Rightarrow> bool" where
  "digitsBelow base s \<longleftrightarrow>
     s \<noteq> [] \<and> list_all (\<lambda>c. case hexValue c of Some v \<Rightarrow> v < base | None \<Rightarrow> False) s"

definition radixValue :: "nat \<Rightarrow> string \<Rightarrow> nat" where
  "radixValue base s = foldl (\<lambda>acc c. base * acc + (case hexValue c of Some v \<Rightarrow> v | None \<Rightarrow> 0)) 0 s"

text \<open>\<^verbatim>\<open>0x\<close>, \<^verbatim>\<open>0o\<close> and \<^verbatim>\<open>0b\<close> literals (no sign allowed).\<close>

definition nonDecimalLiteral :: "string \<Rightarrow> jsnum option" where
  "nonDecimalLiteral s =
     (let prefix = toLowerCase (take 2 s); ds = drop 2 s;
          base = (if prefix = ''0x'' then 16 else if prefix = ''0o'' then 8
                  else if prefix = ''0b'' then 2 else 0)
      in if base \<noteq> 0 \<and> digitsBelow base ds then Some (Fin (of_nat (radixValue base ds)))
         else None)"

text \<open>The exponent part: empty, or \<^verbatim>\<open>e\<close> with an optional sign and digits.\<close>

definition exponentPart :: "string \<Rightarrow> int option" where
  "exponentPart s =
     (if s = [] then Some 0
      else if toLowerCase (take 1 s) = ''e''
      then (let r = drop 1 s;
                neg = (take 1 r = ''-'');
                ds = (if take 1 r = ''-'' \<or> take 1 r = ''+'' then drop 1 r else r)
            in if ds \<noteq> [] \<and> list_all isDigit ds
               then Some (if neg then - int (parseInt ds) else int (parseInt ds))
               else None)
      else None)"

definition scale10 :: "rat \<Rightarrow> int \<Rightarrow> rat" where
  "scale10 x e = (if 0 \<le> e then x * 10 ^ nat e else x / 10 ^ nat (- e))"

text \<open>An unsigned decimal literal: \<^verbatim>\<open>Infinity\<close>, or digits with an optional fraction and
  exponent, with at least one digit before the exponent.\<close>

definition unsignedDecimal :: "string \<Rightarrow> jsnum option" where
  "unsignedDecimal s =
     (if s = ''Infinity'' then Some PosInf
      else (let ip = takeWhile isDigit s;
                r1 = dropWhile isDigit s;
                dot = (take 1 r1 = ''.'');
                fp = (if dot then takeWhile isDigit (drop 1 r1) else []);
                r2 = (if dot then dropWhile isDigit (drop 1 r1) else r1)
            in if ip = [] \<and> fp = [] then None
               else (case exponentPart r2 of
                       None \<Rightarrow> None
                     | Some e \<Rightarrow>
                         Some (Fin (scale10 (of_nat (parseInt ip)
                                             + of_nat (parseInt fp) / 10 ^ length fp) e)))))"

definition negate :: "jsnum \<Rightarrow> jsnum" where
  "negate n = (case n of NaN \<Rightarrow> NaN | NegInf \<Rightarrow> PosInf | Fin x \<Rightarrow> Fin (- x) | PosInf \<Rightarrow> NegInf)"

definition stringToNumber :: "string \<Rightarrow> jsnum" where
  "stringToNumber s =
     (let t = trim s
      in if t = [] then Fin 0
         else (case nonDecimalLiteral t of
                 Some n \<Rightarrow> n
               | None \<Rightarrow>
                   (if take 1 t = ''-''
                    then (case unsignedDecimal (drop 1 t) of Some n \<Rightarrow> negate n | None \<Rightarrow> NaN)
                    else if take 1 t = ''+''
                    then (case unsignedDecimal (drop 1 t) of Some n \<Rightarrow> n | None \<Rightarrow> NaN)
                    else (case unsignedDecimal t of Some n \<Rightarrow> n | None \<Rightarrow> NaN))))"

subsection \<open>ToNumber\<close>

text \<open>
  An object without own \<^verbatim>\<open>toString\<close> becomes \<^verbatim>\<open>[object Object]\<close>, which is no number. An
  array becomes the join of its elements with commas (\<^verbatim>\<open>null\<close> and \<^verbatim>\<open>undefined\<close> as the
  empty string): the empty array reads as 0, an array of one element as that element's
  string does (a number prints and reads back as itself), a longer one is no number.
\<close>

fun toNumber :: "jsval \<Rightarrow> error + jsnum" where
  "toNumber JUndefined = Inr NaN"
| "toNumber JNull = Inr (Fin 0)"
| "toNumber (JBool b) = Inr (Fin (if b then 1 else 0))"
| "toNumber (JNum n) = Inr n"
| "toNumber (JStr s) = Inr (stringToNumber s)"
| "toNumber (JObj kvs) = (if throwsToString (JObj kvs) then Inl TypeError else Inr NaN)"
| "toNumber (JArr []) = Inr (Fin 0)"
| "toNumber (JArr [x]) =
     (if throwsToString x then Inl TypeError
      else (case x of
              JUndefined \<Rightarrow> Inr (Fin 0)
            | JNull \<Rightarrow> Inr (Fin 0)
            | JBool b \<Rightarrow> Inr NaN
            | JNum n \<Rightarrow> Inr n
            | JStr s \<Rightarrow> Inr (stringToNumber s)
            | JArr ys \<Rightarrow> toNumber (JArr ys)
            | JObj kvs \<Rightarrow> Inr NaN))"
| "toNumber (JArr (x # y # zs)) =
     (if throwsToString (JArr (x # y # zs)) then Inl TypeError else Inr NaN)"

section \<open>GeminiService: the external strategy\<close>

subsection \<open>validateAndTransformGeminiResponse\<close>

text \<open>
  The object literals built here are declared \<^verbatim>\<open>InferredTask\<close> through casts
  (\<^verbatim>\<open>as TaskPriority\<close>, \<^verbatim>\<open>as InferenceConfidence\<close>), but their fields hold whatever the
  expressions evaluate to on the payload, so the fields are typed by JavaScript values. A
  \<^verbatim>\<open>new Date(v)\<close> is kept as its argument \<open>v\<close>.
\<close>

datatype RawValue = RawNumber jsnum | RawDate "jsval option"

record RawInference =
  raw_value :: RawValue
  raw_confidence :: InferenceConfidence
  raw_rationale :: jsval

record RawInferredTask =
  raw_id :: jsval
  raw_title :: jsval
  raw_duration :: jsnum
  raw_priority :: jsnum
  raw_deadline :: "jsval option"
  raw_category :: jsval
  raw_notes :: jsval
  raw_dependencies :: jsval
  raw_splittable :: jsval
  raw_inferences :: "(InferenceField \<times> RawInference option) list"
  raw_conditionalHints :: "string list"

record RawParseResult =
  raw_extractedTasks :: "RawInferredTask list"
  raw_ambiguousLines :: jsval
  raw_parsingErrors :: jsval
  raw_parseConfidence :: InferenceConfidence

text \<open>\<^verbatim>\<open>Math.max(lo, Math.min(hi, v || dflt))\<close>\<close>

definition clampOr :: "rat \<Rightarrow> rat \<Rightarrow> rat \<Rightarrow> jsval \<Rightarrow> error + jsnum" where
  "clampOr lo hi dflt v =
     bind_err (toNumber (orElse v (JNum (Fin dflt)))) (\<lambda>n.
       Inr (mathMax (Fin lo) (mathMin (Fin hi) n)))"

text \<open>\<^verbatim>\<open>['low', 'medium', 'high'].includes(v) ? v : dflt\<close>\<close>

definition confidenceOr :: "InferenceConfidence \<Rightarrow> jsval \<Rightarrow> InferenceConfidence" where
  "confidenceOr dflt v =
     (if v = JStr ''low'' then Low
      else if v = JStr ''medium'' then Medium
      else if v = JStr ''high'' then High
      else dflt)"

text \<open>\<^verbatim>\<open>new Date(v)\<close> converts an object or array to a primitive first, which may throw.\<close>

definition newDate :: "jsval \<Rightarrow> error + jsval" where
  "newDate v = (if throwsToString v then Inl TypeError else Inr v)"

definition numberInference ::
  "rat \<Rightarrow> rat \<Rightarrow> rat \<Rightarrow> string \<Rightarrow> jsval \<Rightarrow> error + RawInference option" where
  "numberInference lo hi dflt dfltRationale e =
     (if truthy e
      then bind_err (getProp e ''value'') (\<lambda>v.
           bind_err (clampOr lo hi dflt v) (\<lambda>n.
           bind_err (getProp e ''confidence'') (\<lambda>c.
           bind_err (getProp e ''rationale'') (\<lambda>r.
             Inr (Some \<lparr> raw_value = RawNumber n, raw_confidence = confidenceOr Medium c,
                         raw_rationale = orElse r (JStr dfltRationale) \<rparr>)))))
      else Inr None)"

definition deadlineInference :: "jsval \<Rightarrow> error + RawInference option" where
  "deadlineInference e =
     (if truthy e
      then bind_err (getProp e ''value'') (\<lambda>v.
           bind_err (if truthy v then map_sum id Some (newDate v) else Inr None) (\<lambda>d.
           bind_err (getProp e ''confidence'') (\<lambda>c.
           bind_err (getProp e ''rationale'') (\<lambda>r.
             Inr (Some \<lparr> raw_value = RawDate d, raw_confidence = confidenceOr Low c,
                         raw_rationale = orElse r (JStr ''Inferred from context clues'') \<rparr>)))))
      else Inr None)"

text \<open>The callback of \<^verbatim>\<open>.map\<close>; \<open>nowMs\<close> is what \<^verbatim>\<open>Date.now()\<close> returns to it (read only
  when the task has no usable id).\<close>

definition validateTask :: "int \<Rightarrow> jsval \<Rightarrow> nat \<Rightarrow> error + RawInferredTask" where
  "validateTask nowMs tsk index =
     bind_err (getProp tsk ''id'') (\<lambda>tid.
     bind_err (getProp tsk ''title'') (\<lambda>ttl.
     bind_err (getProp tsk ''duration'') (\<lambda>dv.
     bind_err (clampOr 15 240 60 dv) (\<lambda>dur.
     bind_err (getProp tsk ''priority'') (\<lambda>pv.
     bind_err (clampOr 1 5 3 pv) (\<lambda>pri.
     bind_err (getProp tsk ''deadline'') (\<lambda>dlv.
     bind_err (if truthy dlv then map_sum id Some (newDate dlv) else Inr None) (\<lambda>dl.
     bind_err (getProp tsk ''category'') (\<lambda>cat.
     bind_err (getProp tsk ''notes'') (\<lambda>nts.
     bind_err (getProp tsk ''dependencies'') (\<lambda>deps.
     bind_err (getProp tsk ''splittable'') (\<lambda>spl.
     bind_err (getProp tsk ''inferences'') (\<lambda>infs.
     bind_err (optProp infs ''priority'') (\<lambda>ip.
     bind_err (numberInference 1 5 3 ''Inferred from context'' ip) (\<lambda>priorityEntry.
     bind_err (optProp infs ''duration'') (\<lambda>idur.
     bind_err (numberInference 15 240 60 ''Estimated based on task complexity'' idur)
       (\<lambda>durationEntry.
     bind_err (optProp infs ''deadline'') (\<lambda>idl.
     bind_err (deadlineInference idl) (\<lambda>deadlineEntry.
       Inr \<lparr> raw_id = orElse tid (JStr (''task-'' @ showInt nowMs @ ''-'' @ showNat index)),
             raw_title = orElse ttl (JStr ''Untitled Task''),
             raw_duration = dur,
             raw_priority = pri,
             raw_deadline = dl,
             raw_category = cat,
             raw_notes = nts,
             raw_dependencies = orElse deps (JArr []),
             raw_splittable = orElse spl (JBool False),
             raw_inferences = [(FPriority, priorityEntry), (FDuration, durationEntry),
                               (FDeadline, deadlineEntry)],
             raw_conditionalHints = [] \<rparr>)))))))))))))))))))"

fun validateTasks :: "(nat \<Rightarrow> int) \<Rightarrow> nat \<Rightarrow> jsval list \<Rightarrow> error + RawInferredTask list" where
  "validateTasks clock index [] = Inr []"
| "validateTasks clock index (t # ts) =
     bind_err (validateTask (clock index) t index) (\<lambda>r.
       bind_err (validateTasks clock (Suc index) ts) (\<lambda>rs. Inr (r # rs)))"

text \<open>\<^verbatim>\<open>(response.extractedTasks || []).map(...)\<close>: only an array has a callable \<^verbatim>\<open>map\<close>.\<close>

definition validateAndTransformGeminiResponse ::
  "(nat \<Rightarrow> int) \<Rightarrow> jsval \<Rightarrow> error + RawParseResult" where
  "validateAndTransformGeminiResponse clock response =
     bind_err (getProp response ''extractedTasks'') (\<lambda>et.
       (case orElse et (JArr []) of
          JArr ts \<Rightarrow>
            bind_err (validateTasks clock 0 ts) (\<lambda>tasks.
            bind_err (getProp response ''ambiguousLines'') (\<lambda>al.
            bind_err (getProp response ''parsingErrors'') (\<lambda>pe.
            bind_err (getProp response ''confidence'') (\<lambda>c.
              Inr \<lparr> raw_extractedTasks = tasks,
                    raw_ambiguousLines = orElse al (JArr []),
                    raw_parsingErrors = orElse pe (JArr []),
                    raw_parseConfidence = confidenceOr Medium c \<rparr>))))
        | _ \<Rightarrow> Inl TypeError))"

subsection \<open>realGeminiParsing\<close>

text \<open>What the call takes from outside: the outcome of \<^verbatim>\<open>fetch\<close> and of
  \<^verbatim>\<open>response.json()\<close>, the function \<^verbatim>\<open>JSON.parse\<close> (\<open>None\<close> when it throws) and the
  readings of \<^verbatim>\<open>Date.now()\<close>.\<close>

datatype FetchOutcome =
    FetchRejected
  | ResponseNotOk
  | BodyRejected
  | BodyJson jsval

record ApiWorld =
  fetchOutcome :: FetchOutcome
  jsonParse :: "string \<Rightarrow> jsval option"
  apiClock :: "nat \<Rightarrow> int"

text \<open>The position of the first occurrence of \<open>pat\<close> in \<open>s\<close>.\<close>

fun findSub :: "string \<Rightarrow> string \<Rightarrow> nat option" where
  "findSub pat [] = (if pat = [] then Some 0 else None)"
| "findSub pat (c # cs) =
     (if take (length pat) (c # cs) = pat then Some 0 else map_option Suc (findSub pat cs))"

text \<open>\<^verbatim>\<open>/```json\n([\s\S]*?)\n```/\<close>: the whole match and group 1. The lazy group ends at the
  first closing fence after the first opening fence; if that one has no closing fence, no
  later one has.\<close>

definition fencedJson :: "string \<Rightarrow> (string \<times> string) option" where
  "fencedJson s =
     (let opener = ''```json'' @ [CHR 0x0A]; closer = [CHR 0x0A] @ ''```''
      in case findSub opener s of
           None \<Rightarrow> None
         | Some i \<Rightarrow>
             (let rest = drop (i + length opener) s
              in case findSub closer rest of
                   None \<Rightarrow> None
                 | Some j \<Rightarrow> Some (opener @ take j rest @ closer, take j rest)))"

text \<open>\<^verbatim>\<open>/\{[\s\S]*\}/\<close>: from the first opening brace to the last closing brace after it.\<close>

definition bracedJson :: "string \<Rightarrow> string option" where
  "bracedJson s =
     (case findSub ''{'' s of
        None \<Rightarrow> None
      | Some i \<Rightarrow>
          (let rest = drop i s
           in case findSub ''}'' (rev rest) of
                None \<Rightarrow> None
              | Some k \<Rightarrow> Some (take (length rest - k) rest)))"

definition extractJsonString :: "string \<Rightarrow> string" where
  "extractJsonString generatedText =
     (case fencedJson generatedText of
        Some (whole, group1) \<Rightarrow> (if group1 \<noteq> [] then group1 else whole)
      | None \<Rightarrow>
          (case bracedJson generatedText of
             Some whole \<Rightarrow> whole
           | None \<Rightarrow> generatedText))"

text \<open>\<^verbatim>\<open>data.candidates?.[0]?.content?.parts?.[0]?.text\<close>\<close>

definition generatedTextOf :: "jsval \<Rightarrow> error + jsval" where
  "generatedTextOf data =
     bind_err (getProp data ''candidates'') (\<lambda>cands.
     bind_err (optProp (optFirst cands) ''content'') (\<lambda>content.
     bind_err (optProp content ''parts'') (\<lambda>parts.
       optProp (optFirst parts) ''text'')))"

definition realGeminiParsing :: "ApiWorld \<Rightarrow> string option \<Rightarrow> string \<Rightarrow> error + RawParseResult" where
  "realGeminiParsing world apiKey text =
     (if apiKey = None \<or> apiKey = Some [] then Inl ApiError
      else (case fetchOutcome world of
              FetchRejected \<Rightarrow> Inl ApiError
            | ResponseNotOk \<Rightarrow> Inl ApiError
            | BodyRejected \<Rightarrow> Inl SyntaxError
            | BodyJson data \<Rightarrow>
                bind_err (generatedTextOf data) (\<lambda>generatedText.
                  if \<not> truthy generatedText then Inl ApiError
                  else (case generatedText of
                          JStr s \<Rightarrow>
                            (case jsonParse world (trim (extractJsonString s)) of
                               None \<Rightarrow> Inl SyntaxError
                             | Some parsed \<Rightarrow>
                                 validateAndTransformGeminiResponse (apiClock world) parsed)
                        | _ \<Rightarrow> Inl TypeError))))"

subsection \<open>parseFreeformTasks\<close>

datatype ParseOutcome = FromGemini RawParseResult | FromLocal FreeformParseResult

text \<open>\<^verbatim>\<open>try { ... } catch (error) { ... }\<close>\<close>

definition tryCatch :: "error + 'a \<Rightarrow> (error \<Rightarrow> error + 'a) \<Rightarrow> error + 'a" where
  "tryCatch body handler = (case body of Inl e \<Rightarrow> handler e | Inr x \<Rightarrow> Inr x)"

definition parseFreeformTasks ::
  "ApiWorld \<Rightarrow> (nat \<Rightarrow> LineEnv) \<Rightarrow> string option \<Rightarrow> string \<Rightarrow> error + ParseOutcome" where
  "parseFreeformTasks world envs apiKey freeformText =
     tryCatch
       (if apiKey \<noteq> None \<and> apiKey \<noteq> Some []
        then map_sum id FromGemini (realGeminiParsing world apiKey freeformText)
        else Inr (FromLocal (mockGeminiParsing envs freeformText)))
       (\<lambda>e. Inr (FromLocal (mockGeminiParsing envs freeformText)))"

section \<open>Vocabulary of the claims and concrete inputs\<close>

definition isNow :: "PlannedTask \<Rightarrow> bool" where
  "isNow p \<longleftrightarrow> urgency (priorityScore p) > 8 / 10 \<or> total (priorityScore p) > 8 / 10"

definition isNext :: "PlannedTask \<Rightarrow> bool" where
  "isNext p \<longleftrightarrow> \<not> isNow p \<and> total (priorityScore p) > 5 / 10"

definition isLater :: "PlannedTask \<Rightarrow> bool" where
  "isLater p \<longleftrightarrow> \<not> isNow p \<and> \<not> total (priorityScore p) > 5 / 10"

definition allPlanned :: "DailyPlan \<Rightarrow> PlannedTask list" where
  "allPlanned plan =
     sec_now (sections plan) @ sec_next (sections plan) @ sec_later (sections plan)"

fun penaltyOf :: "InferenceConfidence \<Rightarrow> rat" where
  "penaltyOf Low = 1 / 10"
| "penaltyOf Medium = 5 / 100"
| "penaltyOf High = 0"

definition weightedBase :: "PriorityScore \<Rightarrow> rat" where
  "weightedBase sc = (3 / 10) * urgency sc + (25 / 100) * importance sc + (15 / 100) * effortFit sc
      + (15 / 100) * dependencyReady sc + (15 / 100) * slackRisk sc"

definition settings0 :: PlanningSettings where
  "settings0 = \<lparr> workingHours = (''09:00'', ''17:00''), weekendsEnabled = False,
                 focusBlockLength = 60, breakBuffer = 15, hardCommitments = [] \<rparr>"

definition taskA :: InferredTask where
  "taskA = \<lparr> task_id = ''a'', title = ''file taxes'', deadline = Some (Date 3600000),
             priority = None, duration = Some 45, dependencies = None, task_notes = None,
             category = None, splittable = None,
             inferences = [(FPriority, Some \<lparr> inf_value = NumberValue 3, confidence = Low,
                                              rationale = ''guess'' \<rparr>)],
             conditionalHints = [] \<rparr>"

definition taskB :: InferredTask where
  "taskB = \<lparr> task_id = ''b'', title = ''water plants'', deadline = None,
             priority = Some 2, duration = None, dependencies = None, task_notes = None,
             category = None, splittable = None,
             inferences = [(FDuration, Some \<lparr> inf_value = NumberValue 30, confidence = High,
                                              rationale = ''stated'' \<rparr>)],
             conditionalHints = [] \<rparr>"

definition oneStepLower :: "InferenceConfidence \<Rightarrow> InferenceConfidence \<Rightarrow> bool" where
  "oneStepLower c c' \<longleftrightarrow> (c = High \<and> c' = Medium) \<or> (c = Medium \<and> c' = Low)"

definition env0 :: LineEnv where
  "env0 = \<lparr> freshId = ''task-0-x'', today17 = Date 61200000, tomorrow17 = Date 147600000 \<rparr>"

text \<open>The duration heuristic of the Field Inference Engine in the words of the specification
  (section 4.1), for the comparison of claim C4.\<close>

definition specHeuristicDuration :: "string \<Rightarrow> nat" where
  "specHeuristicDuration s =
     (if length s > 50 \<or> regexTest reComplexInfer s then 120
      else if length s < 20 \<and> regexTest reQuickInfer s then 30
      else 60)"

definition structuredA :: StructuredTask where
  "structuredA = \<lparr> task_id = ''s1'', title = ''design logo'', deadline = None, priority = None,
      duration = None, dependencies = None, task_notes = Some ''for the shop'', category = None,
      splittable = None \<rparr>"

definition payloadHigh :: jsval where
  "payloadHigh =
     JObj [(''extractedTasks'',
            JArr [JObj [(''title'', JStr ''Pay rent''), (''priority'', JStr ''high''),
                        (''duration'', JStr ''an hour'')]])]"

definition responseMalformed :: jsval where
  "responseMalformed =
     JObj [(''candidates'',
            JArr [JObj [(''content'',
                         JObj [(''parts'', JArr [JObj [(''text'', JStr ''Sorry, no tasks'')]])])]])]"

definition worldMalformed :: ApiWorld where
  "worldMalformed =
     \<lparr> fetchOutcome = BodyJson responseMalformed, jsonParse = (\<lambda>s. None),
       apiClock = (\<lambda>k. 0) \<rparr>"

text \<open>A task as \<^verbatim>\<open>validateAndTransformGeminiResponse\<close> builds it for a payload without
  inference blocks (\<open>payloadPlain\<close>): the three inference keys are present and hold
  \<^verbatim>\<open>undefined\<close>. Its deadline is one hour after the epoch.\<close>

definition taskG :: InferredTask where
  "taskG = \<lparr> task_id = ''g'', title = ''Pay rent'', deadline = Some (Date 3600000),
             priority = Some 3, duration = Some 60, dependencies = Some [], task_notes = None,
             category = None, splittable = Some False,
             inferences = [(FPriority, None), (FDuration, None), (FDeadline, None)],
             conditionalHints = [] \<rparr>"

definition payloadPlain :: jsval where
  "payloadPlain =
     JObj [(''extractedTasks'',
            JArr [JObj [(''id'', JStr ''g''), (''title'', JStr ''Pay rent''),
                        (''priority'', JNum (Fin 3)), (''duration'', JNum (Fin 60))]])]"

section \<open>Properties of the scheduler\<close>

lemma bind_err_Inr_iff:
  "bind_err m f = Inr y \<longleftrightarrow> (\<exists>x. m = Inr x \<and> f x = Inr y)"
  by (cases m) (auto simp: bind_err_def)

lemma bind_err_Inl_iff:
  "bind_err m f = Inl e \<longleftrightarrow> (m = Inl e \<or> (\<exists>x. m = Inr x \<and> f x = Inl e))"
  by (cases m) (auto simp: bind_err_def)

lemma penaltyLoop_Inr:
  "None \<notin> set vs \<Longrightarrow> \<exists>pen. penaltyLoop acc vs = Inr pen"
proof (induction vs arbitrary: acc)
  case Nil
  then show ?case by simp
next
  case (Cons v vs)
  then show ?case by (cases v) auto
qed

lemma penaltyLoop_Inl:
  "penaltyLoop acc vs = Inl e \<Longrightarrow> None \<in> set vs \<and> e = TypeError"
proof (induction vs arbitrary: acc)
  case Nil
  then show ?case by simp
next
  case (Cons v vs)
  then show ?case by (cases v) (auto split: sum.splits)
qed

lemma calculatePriorityScore_Inl:
  "calculatePriorityScore nowMs tsk settings planDate = Inl e
     \<Longrightarrow> None \<in> set (map snd (inferences tsk)) \<and> e = TypeError"
  by (auto simp: calculatePriorityScore_def Let_def bind_err_Inl_iff dest!: penaltyLoop_Inl)

lemma calculatePriorityScore_Inr:
  "None \<notin> set (map snd (inferences tsk))
     \<Longrightarrow> \<exists>sc. calculatePriorityScore nowMs tsk settings planDate = Inr sc"
  using penaltyLoop_Inr [of "map snd (inferences tsk)" 0]
  by (auto simp: calculatePriorityScore_def Let_def bind_err_def)

lemma assumptionsLoop_Inl:
  "assumptionsLoop es = Inl e \<Longrightarrow> None \<in> set (map snd es) \<and> e = TypeError"
  by (induction es rule: assumptionsLoop.induct) (auto simp: bind_err_Inl_iff)

lemma scoreTasks_Inr:
  "scoreTasks clock k tsks settings planDate = Inr scored \<Longrightarrow>
     map fst scored = tsks \<and>
     (\<forall>j < length tsks. calculatePriorityScore (clock (k + j)) (tsks ! j) settings planDate
                          = Inr (snd (scored ! j)))"
proof (induction tsks arbitrary: k scored)
  case Nil
  then show ?case by simp
next
  case (Cons t ts)
  from Cons.prems obtain sc rest where
    sc: "calculatePriorityScore (clock k) t settings planDate = Inr sc" and
    rest: "scoreTasks clock (Suc k) ts settings planDate = Inr rest" and
    scored: "scored = (t, sc) # rest"
    by (auto simp: bind_err_Inr_iff)
  from Cons.IH [OF rest] have ih1: "map fst rest = ts" and
    ih2: "\<forall>j < length ts. calculatePriorityScore (clock (Suc k + j)) (ts ! j) settings planDate
                          = Inr (snd (rest ! j))"
    by auto
  show ?case
  proof (intro conjI allI impI)
    show "map fst scored = t # ts" using scored ih1 by simp
  next
    fix j assume "j < length (t # ts)"
    then show "calculatePriorityScore (clock (k + j)) ((t # ts) ! j) settings planDate
                 = Inr (snd (scored ! j))"
      using sc ih2 scored by (cases j) auto
  qed
qed

lemma scoreTasks_Inl:
  "scoreTasks clock k tsks settings planDate = Inl e \<Longrightarrow>
     (\<exists>t \<in> set tsks. None \<in> set (map snd (inferences t))) \<and> e = TypeError"
proof (induction tsks arbitrary: k)
  case Nil
  then show ?case by simp
next
  case (Cons t ts)
  then show ?case
    by (auto simp: bind_err_Inl_iff dest!: calculatePriorityScore_Inl)
qed

lemma scheduleTasks_Inr:
  "scheduleTasks items settings planDate = Inr ps \<Longrightarrow>
     map (\<lambda>p. (task p, priorityScore p)) ps = items"
proof (induction items arbitrary: ps)
  case Nil
  then show ?case by simp
next
  case (Cons it items)
  then show ?case
    by (cases it) (auto simp: bind_err_Inr_iff planTask_def Let_def)
qed

lemma scheduleTasks_Inl:
  "scheduleTasks items settings planDate = Inl e \<Longrightarrow>
     (\<exists>t \<in> set (map fst items). None \<in> set (map snd (inferences t))) \<and> e = TypeError"
proof (induction items)
  case Nil
  then show ?case by simp
next
  case (Cons it items)
  then show ?case
    by (cases it)
      (auto simp: bind_err_Inl_iff planTask_def Let_def extractAssumptions_def
            dest!: assumptionsLoop_Inl)
qed

lemma foldl_categorizeStep:
  "foldl categorizeStep secs ps =
     \<lparr> sec_now = sec_now secs @ filter isNow ps,
       sec_next = sec_next secs @ filter isNext ps,
       sec_later = sec_later secs @ filter isLater ps \<rparr>"
  by (induction ps arbitrary: secs) (auto simp: categorizeStep_def isNow_def isNext_def isLater_def)

lemma categorizeTasks_filters:
  "categorizeTasks ps planDate settings =
     \<lparr> sec_now = filter isNow ps, sec_next = filter isNext ps, sec_later = filter isLater ps \<rparr>"
  by (simp add: categorizeTasks_def foldl_categorizeStep)

lemma mset_three_filters:
  "mset (filter isNow ps @ filter isNext ps @ filter isLater ps) = mset ps"
  by (induction ps) (auto simp: isNext_def isLater_def)

lemma generateDailyPlan_Inr:
  assumes "generateDailyPlan clock tasks settings planDate = Inr plan"
  obtains scored planned where
    "scoreTasks clock 0 tasks settings planDate = Inr scored"
    "scheduleTasks (sort_key (\<lambda>a. - total (snd a)) scored) settings planDate = Inr planned"
    "sections plan = categorizeTasks planned planDate settings"
    "overdueTasks plan = identifyOverdueTasks (clock (length tasks)) planned planDate"
  using assms by (auto simp: generateDailyPlan_def bind_err_Inr_iff Let_def)

lemma generateDailyPlan_Inl:
  assumes "generateDailyPlan clock tasks settings planDate = Inl e"
  shows "e = TypeError \<and> (\<exists>t \<in> set tasks. None \<in> set (map snd (inferences t)))"
proof -
  from assms consider
    (a) "scoreTasks clock 0 tasks settings planDate = Inl e"
  | (b) scored where "scoreTasks clock 0 tasks settings planDate = Inr scored"
      "scheduleTasks (sort_key (\<lambda>a. - total (snd a)) scored) settings planDate = Inl e"
    by (auto simp: generateDailyPlan_def bind_err_Inl_iff Let_def)
  then show ?thesis
  proof cases
    case a
    then show ?thesis using scoreTasks_Inl by blast
  next
    case b
    from scoreTasks_Inr [OF b(1)] have "map fst scored = tasks" by simp
    then have "set (map fst (sort_key (\<lambda>a. - total (snd a)) scored)) = set tasks"
      by (metis set_map set_sort)
    with scheduleTasks_Inl [OF b(2)] show ?thesis by auto
  qed
qed

text \<open>
  What holds of every plan that is returned: the tasks of its three sections are, as a
  multiset, exactly the input tasks; every planned task carries the score
  \<^verbatim>\<open>calculatePriorityScore\<close> gave to its task; and the section follows from that score:
  \<^verbatim>\<open>now\<close> when urgency or total exceeds 0.8, otherwise \<^verbatim>\<open>next\<close> when total exceeds 0.5,
  otherwise \<^verbatim>\<open>later\<close>. The call throws only when some task holds an inference key whose
  value is \<^verbatim>\<open>undefined\<close>.
\<close>

theorem generateDailyPlan_coverage:
  "case generateDailyPlan clock tasks settings planDate of
     Inl e \<Rightarrow> e = TypeError \<and> (\<exists>t \<in> set tasks. None \<in> set (map snd (inferences t)))
   | Inr plan \<Rightarrow>
       mset (map task (allPlanned plan)) = mset tasks \<and>
       (\<forall>p \<in> set (allPlanned plan). \<exists>k < length tasks. tasks ! k = task p \<and>
           calculatePriorityScore (clock k) (task p) settings planDate = Inr (priorityScore p)) \<and>
       (\<forall>p \<in> set (sec_now (sections plan)).
           urgency (priorityScore p) > 8 / 10 \<or> total (priorityScore p) > 8 / 10) \<and>
       (\<forall>p \<in> set (sec_next (sections plan)).
           \<not> (urgency (priorityScore p) > 8 / 10 \<or> total (priorityScore p) > 8 / 10) \<and>
           total (priorityScore p) > 5 / 10) \<and>
       (\<forall>p \<in> set (sec_later (sections plan)).
           \<not> (urgency (priorityScore p) > 8 / 10 \<or> total (priorityScore p) > 8 / 10) \<and>
           \<not> total (priorityScore p) > 5 / 10)"
proof (cases "generateDailyPlan clock tasks settings planDate")
  case (Inl e)
  with generateDailyPlan_Inl [OF Inl] show ?thesis by simp
next
  case (Inr plan)
  then obtain scored planned where
    sc: "scoreTasks clock 0 tasks settings planDate = Inr scored" and
    pl: "scheduleTasks (sort_key (\<lambda>a. - total (snd a)) scored) settings planDate = Inr planned" and
    secs: "sections plan = categorizeTasks planned planDate settings"
    by (rule generateDailyPlan_Inr)
  let ?pair = "\<lambda>p. (task p, priorityScore p)"
  have pairs: "map ?pair planned = sort_key (\<lambda>a. - total (snd a)) scored"
    using scheduleTasks_Inr [OF pl] .
  have fst_scored: "map fst scored = tasks" and
    scores: "\<forall>j < length tasks. calculatePriorityScore (clock j) (tasks ! j) settings planDate
                          = Inr (snd (scored ! j))"
    using scoreTasks_Inr [OF sc] by auto
  have all: "mset (allPlanned plan) = mset planned"
    unfolding allPlanned_def secs categorizeTasks_filters using mset_three_filters by simp
  have "mset (map ?pair planned) = mset scored"
    unfolding pairs by simp
  then have "image_mset fst (mset (map ?pair planned)) = image_mset fst (mset scored)"
    by simp
  then have "mset (map task planned) = mset (map fst scored)"
    by (simp add: image_mset.compositionality comp_def)
  then have cover: "mset (map task (allPlanned plan)) = mset tasks"
    using all fst_scored by (metis mset_map)
  have origin: "\<exists>k < length tasks. tasks ! k = task p \<and>
           calculatePriorityScore (clock k) (task p) settings planDate = Inr (priorityScore p)"
    if "p \<in> set (allPlanned plan)" for p
  proof -
    from that all have "p \<in> set planned" by (metis set_mset_mset)
    then have "?pair p \<in> set (map ?pair planned)" by (simp add: image_iff) blast
    then have "?pair p \<in> set scored" unfolding pairs by simp
    then obtain k where k: "k < length scored" "scored ! k = ?pair p"
      by (auto simp: in_set_conv_nth)
    from fst_scored have len: "length scored = length tasks" by (metis length_map)
    from fst_scored k have "tasks ! k = task p"
      by (metis fst_conv nth_map)
    with scores k len show ?thesis by (metis snd_conv)
  qed
  have secs_now: "sec_now (sections plan) = filter isNow planned"
    and secs_next: "sec_next (sections plan) = filter isNext planned"
    and secs_later: "sec_later (sections plan) = filter isLater planned"
    unfolding secs categorizeTasks_filters by simp_all
  show ?thesis
    unfolding Inr
    using cover origin
    by (simp add: secs_now secs_next secs_later isNow_def isNext_def isLater_def)
qed

lemma penaltyStep_Some: "penaltyStep acc (Some en) = Inr (acc + penaltyOf (confidence en))"
  by (cases "confidence en") simp_all

lemma penaltyLoop_sum:
  "penaltyLoop acc (map Some es) = Inr (acc + (\<Sum>e\<leftarrow>es. penaltyOf (confidence e)))"
  by (induction es arbitrary: acc) (simp_all del: penaltyStep.simps add: penaltyStep_Some add.assoc)

lemma penaltyLoop_Inr_all_Some:
  "penaltyLoop acc vs = Inr pen \<Longrightarrow> vs = map Some (map the vs)"
proof (induction vs arbitrary: acc)
  case Nil
  then show ?case by simp
next
  case (Cons v vs)
  then show ?case by (cases v) (auto split: sum.splits)
qed

lemma penaltyOf_bounds: "0 \<le> penaltyOf c" "penaltyOf c \<le> 1 / 10"
  by (cases c; simp)+

lemma penalty_sum_bounds:
  "0 \<le> (\<Sum>e\<leftarrow>es. penaltyOf (confidence e))"
  "(\<Sum>e\<leftarrow>es. penaltyOf (confidence e)) \<le> of_nat (length es) / 10"
proof -
  show "0 \<le> (\<Sum>e\<leftarrow>es. penaltyOf (confidence e))"
    by (induction es) (simp_all add: penaltyOf_bounds)
  show "(\<Sum>e\<leftarrow>es. penaltyOf (confidence e)) \<le> of_nat (length es) / 10"
  proof (induction es)
    case Nil
    then show ?case by simp
  next
    case (Cons e es)
    have "penaltyOf (confidence e) \<le> 1 / 10" by (rule penaltyOf_bounds)
    with Cons show ?case by (simp add: field_simps)
  qed
qed

lemma calculatePriorityScore_fields:
  assumes "calculatePriorityScore nowMs tsk settings planDate = Inr sc"
  shows "urgency sc = urgencyOf nowMs (deadline tsk)"
    and "importance sc = importanceOf (priority tsk)"
    and "effortFit sc = 1" and "dependencyReady sc = 1" and "slackRisk sc = 1"
    and "penaltyLoop 0 (map snd (inferences tsk)) = Inr (uncertaintyPenalty sc)"
    and "total sc = max 0 (weightedBase sc - uncertaintyPenalty sc)"
  using assms
  by (auto simp: calculatePriorityScore_def Let_def bind_err_Inr_iff weightedBase_def)

lemma urgencyOf_ge: "3 / 10 \<le> urgencyOf nowMs dl"
  by (auto simp: urgencyOf_def Let_def split: option.splits date.splits)

lemma importanceOf_ge: "1 / 5 \<le> importanceOf p"
  by (auto simp: importanceOf_def split: option.splits)

lemma UNIV_InferenceField: "(UNIV :: InferenceField set) = {FPriority, FDuration, FDeadline, FCategory}"
proof -
  have "x \<in> {FPriority, FDuration, FDeadline, FCategory}" for x :: InferenceField
    by (cases x) simp_all
  then show ?thesis by blast
qed

lemma distinct_fields_length:
  assumes "distinct (fs :: InferenceField list)"
  shows "length fs \<le> 4"
proof -
  have "length fs = card (set fs)" using assms by (simp add: distinct_card)
  also have "\<dots> \<le> card (UNIV :: InferenceField set)"
  proof (rule card_mono)
    show "finite (UNIV :: InferenceField set)" by (simp add: UNIV_InferenceField)
    show "set fs \<subseteq> UNIV" by (rule subset_UNIV)
  qed
  also have "\<dots> \<le> 4" by (simp add: UNIV_InferenceField card_insert_if)
  finally show ?thesis .
qed

text \<open>
  Claim C2, as stated, fails: no task has a negative total, because the code applies
  \<^verbatim>\<open>Math.max(0, baseScore - uncertaintyPenalty)\<close>.
\<close>

theorem total_negative_counterexample:
  "\<not> (\<exists>nowMs tsk settings planDate sc.
         calculatePriorityScore nowMs tsk settings planDate = Inr sc \<and> total sc < 0)"
  by (auto dest!: calculatePriorityScore_fields(7))

text \<open>
  Claim C2, amended. The total is the weighted sum minus the uncertainty penalty, clamped
  below at 0, so it is never negative; when the inference keys are distinct (as the keys of
  an object are) the penalty is at most 0.4 and the weighted base at least 0.59, so the
  clamp leaves the value of the formula unchanged.
\<close>

theorem total_clamped:
  assumes "calculatePriorityScore nowMs tsk settings planDate = Inr sc"
  shows "total sc = max 0 ((3 / 10) * urgency sc + (25 / 100) * importance sc
                           + (15 / 100) * effortFit sc + (15 / 100) * dependencyReady sc
                           + (15 / 100) * slackRisk sc - uncertaintyPenalty sc)
         \<and> 0 \<le> total sc
         \<and> (distinct (map fst (inferences tsk)) \<longrightarrow>
              total sc = (3 / 10) * urgency sc + (25 / 100) * importance sc
                           + (15 / 100) * effortFit sc + (15 / 100) * dependencyReady sc
                           + (15 / 100) * slackRisk sc - uncertaintyPenalty sc)"
proof -
  note f = calculatePriorityScore_fields [OF assms]
  have t: "total sc = max 0 (weightedBase sc - uncertaintyPenalty sc)" by (rule f(7))
  have base: "59 / 100 \<le> weightedBase sc"
    using urgencyOf_ge [of nowMs "deadline tsk"] importanceOf_ge [of "priority tsk"]
    by (simp add: weightedBase_def f(1-5))
  have pen: "uncertaintyPenalty sc \<le> 4 / 10" if d: "distinct (map fst (inferences tsk))"
  proof -
    let ?vs = "map snd (inferences tsk)"
    from penaltyLoop_Inr_all_Some [OF f(6)] have vs: "?vs = map Some (map the ?vs)" .
    from vs have "penaltyLoop 0 ?vs = penaltyLoop 0 (map Some (map the ?vs))"
      by (rule arg_cong)
    also have "\<dots> = Inr (0 + (\<Sum>e\<leftarrow>map the ?vs. penaltyOf (confidence e)))"
      by (rule penaltyLoop_sum)
    finally have "penaltyLoop 0 ?vs = Inr (0 + (\<Sum>e\<leftarrow>map the ?vs. penaltyOf (confidence e)))" .
    with f(6) have "uncertaintyPenalty sc = (\<Sum>e\<leftarrow>map the ?vs. penaltyOf (confidence e))"
      by simp
    also have "\<dots> \<le> of_nat (length (map the ?vs)) / 10" by (rule penalty_sum_bounds)
    also have "\<dots> \<le> 4 / 10"
      using distinct_fields_length [OF d] by simp
    finally show ?thesis .
  qed
  show ?thesis
    using t base pen by (auto simp: weightedBase_def max_def)
qed

lemma scoreA: "calculatePriorityScore 0 taskA settings0 (Date 0) =
  Inr \<lparr> urgency = 1, importance = 3 / 5, effortFit = 1, dependencyReady = 1, slackRisk = 1,
        uncertaintyPenalty = 1 / 10, total = 4 / 5 \<rparr>"
  by (simp add: calculatePriorityScore_def taskA_def urgencyOf_def importanceOf_def bind_err_def Let_def)

lemma scoreB: "calculatePriorityScore 0 taskB settings0 (Date 0) =
  Inr \<lparr> urgency = 1 / 2, importance = 2 / 5, effortFit = 1, dependencyReady = 1, slackRisk = 1,
        uncertaintyPenalty = 0, total = 7 / 10 \<rparr>"
  by (simp add: calculatePriorityScore_def taskB_def urgencyOf_def importanceOf_def bind_err_def Let_def)

lemma planTaskA: "\<exists>p. planTask taskA sc = Inr p \<and> task p = taskA \<and> priorityScore p = sc"
  by (simp add: planTask_def extractAssumptions_def taskA_def bind_err_def Let_def)

lemma planTaskB: "\<exists>p. planTask taskB sc = Inr p \<and> task p = taskB \<and> priorityScore p = sc"
  by (simp add: planTask_def extractAssumptions_def taskB_def bind_err_def Let_def)

lemma planAB:
  "\<exists>plan. generateDailyPlan (\<lambda>k. 0) [taskB, taskA] settings0 (Date 0) = Inr plan
      \<and> map task (sec_now (sections plan)) = [taskA]
      \<and> map task (sec_next (sections plan)) = [taskB]
      \<and> sec_later (sections plan) = []"
proof -
  let ?sA = "\<lparr> urgency = 1, importance = 3 / 5, effortFit = 1, dependencyReady = 1,
        slackRisk = 1, uncertaintyPenalty = 1 / 10, total = 4 / 5 \<rparr>"
  let ?sB = "\<lparr> urgency = 1 / 2, importance = 2 / 5, effortFit = 1, dependencyReady = 1,
        slackRisk = 1, uncertaintyPenalty = 0, total = 7 / 10 \<rparr>"
  obtain pA where pA: "planTask taskA ?sA = Inr pA" "task pA = taskA" "priorityScore pA = ?sA"
    using planTaskA by blast
  obtain pB where pB: "planTask taskB ?sB = Inr pB" "task pB = taskB" "priorityScore pB = ?sB"
    using planTaskB by blast
  have sc: "scoreTasks (\<lambda>k. 0) 0 [taskB, taskA] settings0 (Date 0) = Inr [(taskB, ?sB), (taskA, ?sA)]"
    by (simp add: scoreA scoreB bind_err_def)
  have so: "sort_key (\<lambda>a. - total (snd a)) [(taskB, ?sB), (taskA, ?sA)] = [(taskA, ?sA), (taskB, ?sB)]"
    by simp
  have pl: "scheduleTasks [(taskA, ?sA), (taskB, ?sB)] settings0 (Date 0) = Inr [pA, pB]"
    by (simp add: pA pB bind_err_def)
  have cat: "categorizeTasks [pA, pB] (Date 0) settings0
      = \<lparr> sec_now = [pA], sec_next = [pB], sec_later = [] \<rparr>"
    by (simp add: categorizeTasks_def categorizeStep_def pA pB)
  show ?thesis
    unfolding generateDailyPlan_def sc
    by (simp add: bind_err_def so pl cat Let_def pA pB)
qed

text \<open>The coverage theorem at the two-task input \<open>[taskB, taskA]\<close>.\<close>

theorem generateDailyPlan_coverage_witness:
  "\<exists>plan. generateDailyPlan (\<lambda>k. 0) [taskB, taskA] settings0 (Date 0) = Inr plan
      \<and> map task (sec_now (sections plan)) = [taskA]
      \<and> map task (sec_next (sections plan)) = [taskB]
      \<and> mset (map task (allPlanned plan)) = mset [taskB, taskA]
      \<and> (\<forall>p \<in> set (sec_now (sections plan)).
           urgency (priorityScore p) > 8 / 10 \<or> total (priorityScore p) > 8 / 10)"
proof -
  from planAB obtain plan where
    p: "generateDailyPlan (\<lambda>k. 0) [taskB, taskA] settings0 (Date 0) = Inr plan"
       "map task (sec_now (sections plan)) = [taskA]"
       "map task (sec_next (sections plan)) = [taskB]"
    by auto
  from generateDailyPlan_coverage [where clock = "\<lambda>k. 0" and tasks = "[taskB, taskA]" and settings = settings0
      and planDate = "Date 0"] p show ?thesis
    by simp
qed

text \<open>The amended C2 at \<open>taskA\<close>, whose total is 0.8.\<close>

theorem total_clamped_witness:
  "\<exists>sc. calculatePriorityScore 0 taskA settings0 (Date 0) = Inr sc \<and> total sc = 4 / 5
      \<and> total sc = (3 / 10) * urgency sc + (25 / 100) * importance sc
                           + (15 / 100) * effortFit sc + (15 / 100) * dependencyReady sc
                           + (15 / 100) * slackRisk sc - uncertaintyPenalty sc"
  using total_clamped [OF scoreA] scoreA by (simp add: taskA_def)

lemma oneStepLower_penalty: "oneStepLower c c' \<Longrightarrow> penaltyOf c \<le> penaltyOf c'"
  by (auto simp: oneStepLower_def)

lemma sum_list_update_mono:
  fixes g :: "'a \<Rightarrow> rat"
  shows "i < length es \<Longrightarrow> g (es ! i) \<le> g y
     \<Longrightarrow> sum_list (map g es) \<le> sum_list (map g (es[i := y]))"
proof (induction es arbitrary: i)
  case Nil
  then show ?case by simp
next
  case (Cons a es)
  then show ?case by (cases i) auto
qed

lemma penaltyLoop_all_Some:
  assumes "penaltyLoop acc vs = Inr pen"
  obtains es where "vs = map Some es" "pen = acc + (\<Sum>e\<leftarrow>es. penaltyOf (confidence e))"
proof -
  from penaltyLoop_Inr_all_Some [OF assms] have vs: "vs = map Some (map the vs)" .
  then have "penaltyLoop acc vs = penaltyLoop acc (map Some (map the vs))" by (rule arg_cong)
  with assms penaltyLoop_sum [of acc "map the vs"]
  have "pen = acc + (\<Sum>e\<leftarrow>map the vs. penaltyOf (confidence e))" by simp
  with vs that show ?thesis by blast
qed

text \<open>
  Claim C5. Replacing the confidence of one inference entry by the next lower level
  (high to medium, medium to low), everything else kept, yields a score whose total is not
  larger.
\<close>

theorem total_confidence_antimono:
  assumes i: "i < length (inferences tsk)"
    and entry: "inferences tsk ! i = (field, Some en)"
    and lower: "oneStepLower (confidence en) c'"
    and score: "calculatePriorityScore nowMs tsk settings planDate = Inr sc"
  shows "\<exists>sc'. calculatePriorityScore nowMs
                 (tsk\<lparr> inferences := (inferences tsk)[i := (field, Some (en\<lparr> confidence := c' \<rparr>))] \<rparr>)
                 settings planDate = Inr sc'
               \<and> total sc' \<le> total sc"
proof -
  let ?en' = "en\<lparr> confidence := c' \<rparr>"
  let ?tsk' = "tsk\<lparr> inferences := (inferences tsk)[i := (field, Some ?en')] \<rparr>"
  let ?g = "\<lambda>e :: InferenceValue Inference. penaltyOf (confidence e)"
  note f = calculatePriorityScore_fields [OF score]
  from f(6) obtain es where
    es: "map snd (inferences tsk) = map Some es" and
    pen: "uncertaintyPenalty sc = 0 + sum_list (map ?g es)"
    by (rule penaltyLoop_all_Some)
  from es have len: "length es = length (inferences tsk)" by (metis length_map)
  from es i entry len have esi: "es ! i = en"
    by (metis nth_map option.inject snd_conv)
  have vs': "map snd (inferences ?tsk') = map Some (es[i := ?en'])"
    using es by (simp add: map_update)
  have pen': "penaltyLoop 0 (map snd (inferences ?tsk')) = Inr (0 + sum_list (map ?g (es[i := ?en'])))"
    unfolding vs' by (rule penaltyLoop_sum)
  have mono: "sum_list (map ?g es) \<le> sum_list (map ?g (es[i := ?en']))"
    using i len esi oneStepLower_penalty [OF lower]
    by (intro sum_list_update_mono) simp_all
  define sc' where "sc' = sc\<lparr> uncertaintyPenalty := sum_list (map ?g (es[i := ?en'])),
      total := max 0 (weightedBase sc - sum_list (map ?g (es[i := ?en']))) \<rparr>"
  have "calculatePriorityScore nowMs ?tsk' settings planDate = Inr sc'"
    using pen' f(1-5)
    by (simp add: calculatePriorityScore_def bind_err_def Let_def sc'_def weightedBase_def)
  moreover have "total sc' \<le> total sc"
    using mono pen f(7) by (simp add: sc'_def weightedBase_def)
  ultimately show ?thesis by blast
qed

text \<open>C5 at \<open>taskB\<close>, whose duration inference is lowered from high to medium.\<close>

theorem total_confidence_antimono_witness:
  "\<exists>sc sc'. calculatePriorityScore 0 taskB settings0 (Date 0) = Inr sc
     \<and> calculatePriorityScore 0
          (taskB\<lparr> inferences := [(FDuration, Some \<lparr> inf_value = NumberValue 30, confidence = Medium,
                                              rationale = ''stated'' \<rparr>)] \<rparr>) settings0 (Date 0) = Inr sc'
     \<and> total sc' \<le> total sc"
proof -
  have i: "0 < length (inferences taskB)" by (simp add: taskB_def)
  have e: "inferences taskB ! 0 = (FDuration, Some \<lparr> inf_value = NumberValue 30, confidence = High,
                                              rationale = ''stated'' \<rparr>)"
    by (simp add: taskB_def)
  have l: "oneStepLower (confidence \<lparr> inf_value = NumberValue 30, confidence = High,
                                              rationale = ''stated'' \<rparr>) Medium"
    by (simp add: oneStepLower_def)
  from total_confidence_antimono [OF i e l scoreB] scoreB show ?thesis
    by (simp add: taskB_def)
qed

lemma calculatePriorityScore_planDate:
  "calculatePriorityScore nowMs tsk settings d1 = calculatePriorityScore nowMs tsk settings d2"
  by (simp add: calculatePriorityScore_def)

lemma scoreTasks_planDate:
  "scoreTasks clock k tsks settings d1 = scoreTasks clock k tsks settings d2"
  by (induction tsks arbitrary: k)
    (simp_all add: calculatePriorityScore_planDate [of _ _ _ d1 d2])

lemma scheduleTasks_planDate:
  "scheduleTasks items settings d1 = scheduleTasks items settings d2"
  by (induction items settings d1 rule: scheduleTasks.induct) simp_all

lemma categorizeTasks_planDate:
  "categorizeTasks ps d1 settings = categorizeTasks ps d2 settings"
  by (simp add: categorizeTasks_def)

lemma identifyOverdueTasks_planDate:
  "identifyOverdueTasks nowMs ps d1 = identifyOverdueTasks nowMs ps d2"
  by (simp add: identifyOverdueTasks_def)

text \<open>
  Claim C10. With the same clock readings, tasks and settings, the result for a plan date
  \<open>d2\<close> is the result for \<open>d1\<close> with only the plan's id and date replaced: sections (with
  scores and scheduling reasons), overdue tasks and metadata coincide, and one call throws
  exactly when the other does.
\<close>

theorem generateDailyPlan_planDate_irrelevant:
  "generateDailyPlan clock tasks settings d2 =
     map_sum id
       (\<lambda>plan. plan\<lparr> plan_id := ''plan-'' @ getTimeString d2 @ ''-'' @ showInt (clock (length tasks + 1)),
                     plan_date := d2 \<rparr>)
       (generateDailyPlan clock tasks settings d1)"
proof -
  have sc: "scoreTasks clock 0 tasks settings d2 = scoreTasks clock 0 tasks settings d1"
    by (rule scoreTasks_planDate)
  show ?thesis
  proof (cases "scoreTasks clock 0 tasks settings d1")
    case (Inl e)
    then show ?thesis by (simp add: generateDailyPlan_def sc bind_err_def)
  next
    case (Inr scored)
    let ?sorted = "sort_key (\<lambda>a. - total (snd a)) scored"
    have pl: "scheduleTasks ?sorted settings d2 = scheduleTasks ?sorted settings d1"
      by (rule scheduleTasks_planDate)
    show ?thesis
    proof (cases "scheduleTasks ?sorted settings d1")
      case (Inl e)
      then show ?thesis using Inr by (simp add: generateDailyPlan_def sc pl bind_err_def)
    next
      case inner: (Inr planned)
      show ?thesis using Inr inner
        by (simp add: generateDailyPlan_def sc pl bind_err_def Let_def
            categorizeTasks_planDate [of _ d2 _ d1] identifyOverdueTasks_planDate [of _ _ d2 d1])
    qed
  qed
qed

lemma isOverdue_iff: "isOverdue nowMs tsk \<longleftrightarrow> (\<exists>t. deadline tsk = Some (Date t) \<and> t < nowMs)"
  by (auto simp: isOverdue_def split: option.splits date.splits)

text \<open>
  What holds of every plan that is returned: the tasks of \<^verbatim>\<open>overdueTasks\<close> are, as a multiset,
  exactly the input tasks whose deadline is a valid date strictly before the clock reading
  taken by \<^verbatim>\<open>identifyOverdueTasks\<close>; every overdue planned task also sits in one of the
  three sections, and every planned task with such a deadline is in \<^verbatim>\<open>overdueTasks\<close>.
\<close>

theorem overdueTasks_inclusion:
  "case generateDailyPlan clock tasks settings planDate of
     Inl e \<Rightarrow> e = TypeError \<and> (\<exists>t \<in> set tasks. None \<in> set (map snd (inferences t)))
   | Inr plan \<Rightarrow>
       mset (map task (overdueTasks plan))
         = mset (filter (\<lambda>tsk. \<exists>t. deadline tsk = Some (Date t) \<and> t < clock (length tasks)) tasks) \<and>
       set (overdueTasks plan) \<subseteq> set (allPlanned plan) \<and>
       (\<forall>p \<in> set (allPlanned plan).
          (\<exists>t. deadline (task p) = Some (Date t) \<and> t < clock (length tasks))
            \<longrightarrow> p \<in> set (overdueTasks plan))"
proof (cases "generateDailyPlan clock tasks settings planDate")
  case (Inl e)
  with generateDailyPlan_Inl [OF Inl] show ?thesis by simp
next
  case (Inr plan)
  then obtain scored planned where
    sc: "scoreTasks clock 0 tasks settings planDate = Inr scored" and
    pl: "scheduleTasks (sort_key (\<lambda>a. - total (snd a)) scored) settings planDate = Inr planned" and
    secs: "sections plan = categorizeTasks planned planDate settings" and
    ov: "overdueTasks plan = identifyOverdueTasks (clock (length tasks)) planned planDate"
    by (rule generateDailyPlan_Inr)
  let ?od = "\<lambda>tsk. \<exists>t. deadline tsk = Some (Date t) \<and> t < clock (length tasks)"
  have ov': "overdueTasks plan = filter (\<lambda>p. ?od (task p)) planned"
    unfolding ov identifyOverdueTasks_def isOverdue_iff ..
  have all: "mset (allPlanned plan) = mset planned"
    unfolding allPlanned_def secs categorizeTasks_filters using mset_three_filters by simp
  have "map fst (map (\<lambda>p. (task p, priorityScore p)) planned)
          = map fst (sort_key (\<lambda>a. - total (snd a)) scored)"
    using scheduleTasks_Inr [OF pl] by simp
  then have "mset (map task planned) = mset (map fst scored)"
    by (simp add: comp_def)
  then have tasks: "mset (map task planned) = mset tasks"
    using scoreTasks_Inr [OF sc] by simp
  have "mset (map task (overdueTasks plan)) = mset (filter ?od (map task planned))"
    unfolding ov' by (simp add: filter_map comp_def)
  also have "\<dots> = filter_mset ?od (mset (map task planned))" by simp
  also have "\<dots> = mset (filter ?od tasks)" unfolding tasks by simp
  finally have one: "mset (map task (overdueTasks plan)) = mset (filter ?od tasks)" .
  have setall: "set (allPlanned plan) = set planned" using all by (metis set_mset_mset)
  show ?thesis
    unfolding Inr using one setall by (auto simp: ov')
qed

text \<open>The overdue theorem at \<open>[taskA]\<close>, read two hours after the epoch, one hour past the
  deadline.\<close>

theorem overdueTasks_inclusion_witness:
  "\<exists>plan. generateDailyPlan (\<lambda>k. 7200000) [taskA] settings0 (Date 0) = Inr plan
      \<and> mset (map task (overdueTasks plan)) = {#taskA#}
      \<and> set (overdueTasks plan) \<subseteq> set (allPlanned plan)"
proof (cases "generateDailyPlan (\<lambda>k. 7200000) [taskA] settings0 (Date 0)")
  case (Inl e)
  with overdueTasks_inclusion [where clock = "\<lambda>k. 7200000" and tasks = "[taskA]" and settings = settings0
      and planDate = "Date 0"]
  show ?thesis by (simp add: taskA_def)
next
  case (Inr plan)
  with overdueTasks_inclusion [where clock = "\<lambda>k. 7200000" and tasks = "[taskA]" and settings = settings0
      and planDate = "Date 0"]
  show ?thesis by (simp add: taskA_def)
qed

lemma calculatePriorityScore_taskG:
  "calculatePriorityScore nowMs taskG settings planDate = Inl TypeError"
  by (simp add: calculatePriorityScore_def taskG_def bind_err_def Let_def)

text \<open>
  Claim C1 fails at the input list \<open>[taskB, taskG]\<close>: \<open>taskG\<close> has inference keys that hold
  \<^verbatim>\<open>undefined\<close>, the \<^verbatim>\<open>forEach\<close> of \<^verbatim>\<open>calculatePriorityScore\<close> reads \<^verbatim>\<open>.confidence\<close> of
  \<^verbatim>\<open>undefined\<close>, and \<^verbatim>\<open>generateDailyPlan\<close> throws: no plan is returned, so neither task is in
  any section.
\<close>

theorem generateDailyPlan_loses_tasks:
  "generateDailyPlan (\<lambda>k. 0) [taskB, taskG] settings0 (Date 0) = Inl TypeError"
  by (simp add: generateDailyPlan_def scoreB calculatePriorityScore_taskG bind_err_def)

text \<open>
  Claim C6 fails at the input list \<open>[taskG]\<close>, read two hours after the epoch: the deadline
  of \<open>taskG\<close> is one hour in the past, but \<^verbatim>\<open>generateDailyPlan\<close> throws on its inference keys
  that hold \<^verbatim>\<open>undefined\<close>, so no plan and no \<^verbatim>\<open>overdueTasks\<close> is returned.
\<close>

theorem generateDailyPlan_no_overdueTasks:
  "deadline taskG = Some (Date 3600000) \<and> (3600000 :: int) < 7200000 \<and>
   generateDailyPlan (\<lambda>k. 7200000) [taskG] settings0 (Date 0) = Inl TypeError"
proof -
  have d: "deadline taskG = Some (Date 3600000)" by (simp add: taskG_def)
  have t: "generateDailyPlan (\<lambda>k. 7200000) [taskG] settings0 (Date 0) = Inl TypeError"
    by (simp add: generateDailyPlan_def calculatePriorityScore_taskG bind_err_def)
  from d t show ?thesis by simp
qed

section \<open>Properties of the local parser and of field inference\<close>

lemma parseTaskLine_None_iff: "parseTaskLine env line = None \<longleftrightarrow> cleanTitle line = []"
  by (simp add: parseTaskLine_def Let_def split: prod.splits)

lemma parseTaskLine_Some_title: "parseTaskLine env line = Some t \<Longrightarrow> title t = cleanTitle line \<and> cleanTitle line \<noteq> []"
  by (auto simp: parseTaskLine_def Let_def split: prod.splits if_splits)

lemma parseLines_acc:
  "parseLines envs i ls (ts, am) =
     (ts @ fst (parseLines envs i ls ([], [])), am @ snd (parseLines envs i ls ([], [])))"
proof (induction ls arbitrary: i ts am)
  case Nil
  then show ?case by simp
next
  case (Cons l ls)
  show ?case
  proof (cases "trim l = []")
    case True
    then show ?thesis using Cons.IH [of "Suc i" ts am] by simp
  next
    case False
    show ?thesis
    proof (cases "parseTaskLine (envs i) (trim l)")
      case None
      then show ?thesis
        using False Cons.IH [of "Suc i" ts "am @ [trim l]"] Cons.IH [of "Suc i" "[]" "[trim l]"]
        by simp
    next
      case (Some t)
      then show ?thesis
        using False Cons.IH [of "Suc i" "ts @ [t]" am] Cons.IH [of "Suc i" "[t]" "[]"]
        by simp
    qed
  qed
qed

lemma parseLines_char:
  "snd (parseLines envs i ls ([], []))
     = filter (\<lambda>l. cleanTitle l = []) (filter (\<lambda>l. l \<noteq> []) (map trim ls)) \<and>
   map title (fst (parseLines envs i ls ([], [])))
     = map cleanTitle (filter (\<lambda>l. cleanTitle l \<noteq> []) (filter (\<lambda>l. l \<noteq> []) (map trim ls)))"
proof (induction ls arbitrary: i)
  case Nil
  then show ?case by simp
next
  case (Cons l ls)
  show ?case
  proof (cases "trim l = []")
    case True
    then show ?thesis using Cons.IH [of "Suc i"] by simp
  next
    case False
    show ?thesis
    proof (cases "parseTaskLine (envs i) (trim l)")
      case None
      then have "cleanTitle (trim l) = []" by (simp add: parseTaskLine_None_iff)
      then show ?thesis
        using False None Cons.IH [of "Suc i"]
          parseLines_acc [of envs "Suc i" ls "[]" "[trim l]"]
        by simp
    next
      case (Some t)
      from parseTaskLine_Some_title [OF Some]
      have "title t = cleanTitle (trim l)" "cleanTitle (trim l) \<noteq> []" by simp_all
      then show ?thesis
        using False Some Cons.IH [of "Suc i"]
          parseLines_acc [of envs "Suc i" ls "[t]" "[]"]
        by simp
    qed
  qed
qed

text \<open>
  Claim C3, amended. The lines of the text that are not blank, trimmed, are split by their
  cleaned title: those whose cleaned title is empty are exactly the \<^verbatim>\<open>ambiguousLines\<close>, in
  order, and the others give the extracted tasks, in order, each titled with its cleaned
  title. So a line with an empty cleaned title yields no task and is reported as ambiguous.
\<close>

theorem mockGeminiParsing_lines:
  "ambiguousLines (mockGeminiParsing envs text)
     = filter (\<lambda>l. cleanTitle l = [])
         (map trim (filter (\<lambda>l. trim l \<noteq> []) (splitLines text))) \<and>
   map title (extractedTasks (mockGeminiParsing envs text))
     = map cleanTitle (filter (\<lambda>l. cleanTitle l \<noteq> [])
         (map trim (filter (\<lambda>l. trim l \<noteq> []) (splitLines text))))"
proof -
  let ?ls = "filter (\<lambda>l. trim l \<noteq> []) (splitLines text)"
  have f: "filter (\<lambda>l. l \<noteq> []) (map trim ?ls) = map trim ?ls"
    by (simp add: filter_map comp_def)
  have r: "mockGeminiParsing envs text =
      \<lparr> extractedTasks = fst (parseLines envs 0 ?ls ([], [])),
        ambiguousLines = snd (parseLines envs 0 ?ls ([], [])), parsingErrors = [],
        parseConfidence = (if length (fst (parseLines envs 0 ?ls ([], []))) > 0 then Medium else Low) \<rparr>"
    by (simp add: mockGeminiParsing_def Let_def split: prod.splits)
  show ?thesis
    unfolding r using parseLines_char [of envs 0 ?ls] unfolding f by simp
qed

text \<open>
  Claim C3, as stated, fails at the text \<^verbatim>\<open>urgent\<close>: its cleaned title is empty and the line
  is in \<^verbatim>\<open>ambiguousLines\<close>.
\<close>

theorem empty_title_discarded_counterexample:
  "cleanTitle ''urgent'' = [] \<and>
   ambiguousLines (mockGeminiParsing (\<lambda>i. env0) ''urgent'') = [''urgent'']"
  by code_simp

lemma specHeuristicDuration_inferDuration: "specHeuristicDuration s = fst (inferDuration s)"
  by (simp add: specHeuristicDuration_def inferDuration_def)

text \<open>
  Claim C4, as stated, fails at the line \<^verbatim>\<open>design logo\<close>: it holds no explicit duration, the
  parser gives 30 minutes, the heuristic of section 4.1 gives 120.
\<close>

theorem lineDuration_heuristic_counterexample:
  "execFirst reDuration ''design logo'' = None \<and>
   map_option duration (parseTaskLine env0 ''design logo'') = Some (Some 30) \<and>
   specHeuristicDuration ''design logo'' = 120"
  by code_simp

lemma execFirst_Some: "execFirst m s = Some r \<Longrightarrow> \<exists>k. m (drop k s) = Some r"
proof (induction s)
  case Nil
  then show ?case by simp
next
  case (Cons c cs)
  show ?case
  proof (cases "m (c # cs)")
    case None
    with Cons obtain k where "m (drop k cs) = Some r" by auto
    then have "m (drop (Suc k) (c # cs)) = Some r" by simp
    then show ?thesis by blast
  next
    case (Some a)
    with Cons.prems have "m (drop 0 (c # cs)) = Some r" by simp
    then show ?thesis by blast
  qed
qed

lemma literalAt_Some: "literalAt lit s = Some k \<Longrightarrow> k = length lit \<and> toLowerCase (take k s) = lit"
  by (auto simp: literalAt_def split: if_splits)

lemma firstAlt_literals:
  "firstAlt (map literalAt lits) s = Some k \<Longrightarrow> toLowerCase (take k s) \<in> set lits"
  by (induction lits) (auto split: option.splits dest: literalAt_Some)

lemma reDuration_unit:
  assumes "reDuration s = Some (digits, unit, n)"
  shows "toLowerCase unit \<in> {''hour'', ''hr'', ''min'', ''minute''}"
proof -
  from assms obtain k where
    k: "firstAlt (map literalAt [''hour'', ''hr'', ''min'', ''minute''])
          (dropWhile isSpace (dropWhile isDigit s)) = Some k"
    and u: "unit = take k (dropWhile isSpace (dropWhile isDigit s))"
    by (auto simp: reDuration_def Let_def split: if_splits option.splits)
  from firstAlt_literals [OF k] u show ?thesis by simp
qed

text \<open>
  Claim C4, amended. For a line that yields a task: when the duration pattern matches, the
  first match gives the minutes (its number, times 60 for \<^verbatim>\<open>hour\<close> and \<^verbatim>\<open>hr\<close>) with
  confidence high; otherwise the duration is 120 when the line is longer than 100 characters
  or holds research, analyze, develop or create, else 60 when it is longer than 50 or holds
  write, review or plan, else 30, always with confidence low.
\<close>

theorem parseTaskLine_duration:
  assumes "parseTaskLine env line = Some t"
  shows "case execFirst reDuration line of
           Some (digits, unit, n) \<Rightarrow>
             (let minutes = (if toLowerCase unit = ''hour'' \<or> toLowerCase unit = ''hr''
                             then parseInt digits * 60 else parseInt digits)
              in duration t = Some minutes \<and>
                 (\<exists>en. (FDuration, Some en) \<in> set (inferences t) \<and>
                       inf_value en = NumberValue minutes \<and> confidence en = High))
         | None \<Rightarrow>
             (let minutes = (if length line > 100 \<or> regexTest reComplexParse line then 120
                             else if length line > 50 \<or> regexTest reMediumParse line then 60
                             else 30)
              in duration t = Some minutes \<and>
                 (\<exists>en. (FDuration, Some en) \<in> set (inferences t) \<and>
                       inf_value en = NumberValue minutes \<and> confidence en = Low))"
proof -
  obtain d c r where ld: "lineDuration line = (d, c, r)" by (cases "lineDuration line") auto
  from assms ld have dur: "duration t = Some d"
    and ent: "(FDuration, Some \<lparr> inf_value = NumberValue d, confidence = c, rationale = r \<rparr>)
                \<in> set (inferences t)"
    by (auto simp: parseTaskLine_def Let_def split: prod.splits if_splits)
  show ?thesis
  proof (cases "execFirst reDuration line")
    case None
    with ld have "d = (if length line > 100 \<or> regexTest reComplexParse line then 120
                             else if length line > 50 \<or> regexTest reMediumParse line then 60
                             else 30)" and "c = Low"
      by (auto simp: lineDuration_def split: if_splits)
    with None dur ent show ?thesis by (auto simp: Let_def)
  next
    case (Some m)
    obtain digits unit n where m: "m = (digits, unit, n)" by (cases m) auto
    from Some m execFirst_Some obtain k where "reDuration (drop k line) = Some (digits, unit, n)"
      by metis
    from reDuration_unit [OF this]
    have h: "(take 1 (toLowerCase unit) = ''h'') = (toLowerCase unit = ''hour'' \<or> toLowerCase unit = ''hr'')"
      by auto
    from ld Some m have "d = (if take 1 (toLowerCase unit) = ''h''
                              then parseInt digits * 60 else parseInt digits)" and "c = High"
      by (auto simp: lineDuration_def Let_def)
    with Some m dur ent h show ?thesis by (auto simp: Let_def)
  qed
qed

text \<open>The amended C4 at the line \<^verbatim>\<open>standup 2 hrs\<close>.\<close>

theorem parseTaskLine_duration_witness:
  "parseTaskLine env0 ''standup 2 hrs'' =
     Some \<lparr> task_id = ''task-0-x'', title = ''standup'', deadline = None, priority = Some 3,
            duration = Some 120, dependencies = None, task_notes = None, category = None,
            splittable = None,
            inferences = [(FPriority, Some \<lparr> inf_value = NumberValue 3, confidence = Low,
                              rationale = ''Assumed medium priority (no indicators found)'' \<rparr>),
                          (FDuration, Some \<lparr> inf_value = NumberValue 120, confidence = High,
                              rationale = ''Extracted from text'' \<rparr>)],
            conditionalHints = [''This task may be split into smaller blocks if schedule is tight.''] \<rparr>
   \<and> execFirst reDuration ''standup 2 hrs'' = Some (''2'', ''hr'', 5)
   \<and> parseInt ''2'' * 60 = 120"
proof -
  have p: "parseTaskLine env0 ''standup 2 hrs'' =
     Some \<lparr> task_id = ''task-0-x'', title = ''standup'', deadline = None, priority = Some 3,
            duration = Some 120, dependencies = None, task_notes = None, category = None,
            splittable = None,
            inferences = [(FPriority, Some \<lparr> inf_value = NumberValue 3, confidence = Low,
                              rationale = ''Assumed medium priority (no indicators found)'' \<rparr>),
                          (FDuration, Some \<lparr> inf_value = NumberValue 120, confidence = High,
                              rationale = ''Extracted from text'' \<rparr>)],
            conditionalHints = [''This task may be split into smaller blocks if schedule is tight.''] \<rparr>"
    by code_simp
  have e: "execFirst reDuration ''standup 2 hrs'' = Some (''2'', ''hr'', 5)" by code_simp
  have v: "parseInt ''2'' * 60 = 120" by code_simp
  from parseTaskLine_duration [OF p] p e v show ?thesis by simp
qed

text \<open>
  Claim C9. \<^verbatim>\<open>inferTaskFields\<close> returns the nine explicit fields of its input unchanged. A
  missing priority or duration is recorded as an entry of \<^verbatim>\<open>inferences\<close> only, and for a
  task without a top-level priority the scorer returns importance 0.6.
\<close>

theorem inferTaskFields_frame:
  "task_id (inferTaskFields nowMs tsk context) = task_id tsk \<and>
   title (inferTaskFields nowMs tsk context) = title tsk \<and>
   deadline (inferTaskFields nowMs tsk context) = deadline tsk \<and>
   priority (inferTaskFields nowMs tsk context) = priority tsk \<and>
   duration (inferTaskFields nowMs tsk context) = duration tsk \<and>
   dependencies (inferTaskFields nowMs tsk context) = dependencies tsk \<and>
   task_notes (inferTaskFields nowMs tsk context) = task_notes tsk \<and>
   category (inferTaskFields nowMs tsk context) = category tsk \<and>
   splittable (inferTaskFields nowMs tsk context) = splittable tsk \<and>
   (priority tsk = None \<longrightarrow>
      (\<exists>en. (FPriority, Some en) \<in> set (inferences (inferTaskFields nowMs tsk context))) \<and>
      (\<exists>sc. calculatePriorityScore nowMs' (inferTaskFields nowMs tsk context) settings planDate
               = Inr sc \<and> importance sc = 6 / 10)) \<and>
   (duration tsk = None \<longrightarrow>
      (\<exists>en. (FDuration, Some en) \<in> set (inferences (inferTaskFields nowMs tsk context))))"
proof -
  let ?r = "inferTaskFields nowMs tsk context"
  have frame: "task_id ?r = task_id tsk" "title ?r = title tsk" "deadline ?r = deadline tsk"
    "priority ?r = priority tsk" "duration ?r = duration tsk" "dependencies ?r = dependencies tsk"
    "task_notes ?r = task_notes tsk" "category ?r = category tsk" "splittable ?r = splittable tsk"
    by (simp_all add: inferTaskFields_def mockFieldInference_def Let_def
        StructuredTask.extend_def split: prod.splits)
  have nn: "None \<notin> set (map snd (inferences ?r))"
    by (auto simp: inferTaskFields_def mockFieldInference_def Let_def
        StructuredTask.extend_def InferredTask.fields_def split: prod.splits if_splits)
  have pri: "\<exists>en. (FPriority, Some en) \<in> set (inferences ?r)" if "priority tsk = None"
    using that
    by (auto simp: inferTaskFields_def mockFieldInference_def Let_def falsyNumber_def
        StructuredTask.extend_def InferredTask.fields_def split: prod.splits if_splits)
  have dur: "\<exists>en. (FDuration, Some en) \<in> set (inferences ?r)" if "duration tsk = None"
    using that
    by (auto simp: inferTaskFields_def mockFieldInference_def Let_def falsyNumber_def
        StructuredTask.extend_def InferredTask.fields_def split: prod.splits if_splits)
  have imp: "\<exists>sc. calculatePriorityScore nowMs' ?r settings planDate = Inr sc \<and> importance sc = 6 / 10"
    if "priority tsk = None"
  proof -
    from calculatePriorityScore_Inr [OF nn] obtain sc where
      sc: "calculatePriorityScore nowMs' ?r settings planDate = Inr sc" by blast
    from calculatePriorityScore_fields(2) [OF sc] frame(4) that
    have "importance sc = 6 / 10" by (simp add: importanceOf_def)
    with sc show ?thesis by blast
  qed
  from frame pri dur imp show ?thesis by blast
qed

text \<open>C9 at \<open>structuredA\<close>, which has neither priority nor duration.\<close>

theorem inferTaskFields_frame_witness:
  "priority structuredA = None \<and> priority (inferTaskFields 0 structuredA None) = None \<and>
   task_notes (inferTaskFields 0 structuredA None) = Some ''for the shop'' \<and>
   (\<exists>sc. calculatePriorityScore 0 (inferTaskFields 0 structuredA None) settings0 (Date 0) = Inr sc
         \<and> importance sc = 6 / 10)"
  using inferTaskFields_frame [of 0 structuredA None 0 settings0 "Date 0"]
  by (simp add: structuredA_def)

section \<open>Properties of the external strategy\<close>

lemma realGeminiParsing_failures:
  assumes "fetchOutcome world = FetchRejected \<or> fetchOutcome world = ResponseNotOk \<or>
           fetchOutcome world = BodyRejected \<or>
           (\<exists>data g. fetchOutcome world = BodyJson data \<and> generatedTextOf data = Inr g \<and> \<not> truthy g) \<or>
           (\<exists>data s. fetchOutcome world = BodyJson data \<and> generatedTextOf data = Inr (JStr s) \<and>
                     jsonParse world (trim (extractJsonString s)) = None)"
  shows "\<exists>e. realGeminiParsing world apiKey input = Inl e"
proof (cases "apiKey = None \<or> apiKey = Some []")
  case True
  then show ?thesis by (auto simp: realGeminiParsing_def)
next
  case False
  show ?thesis
  proof (cases "fetchOutcome world")
    case (BodyJson data)
    show ?thesis
    proof (cases "generatedTextOf data")
      case (Inl e)
      with False BodyJson show ?thesis by (simp add: realGeminiParsing_def bind_err_def)
    next
      case (Inr g)
      show ?thesis
      proof (cases "truthy g")
        case t: True
        with assms BodyJson Inr have
          np: "\<exists>s. g = JStr s \<and> jsonParse world (trim (extractJsonString s)) = None" by auto
        from False BodyJson Inr t np show ?thesis
          by (auto simp: realGeminiParsing_def bind_err_def)
      next
        case f: False
        with False BodyJson Inr show ?thesis by (simp add: realGeminiParsing_def bind_err_def)
      qed
    qed
  qed (use False in \<open>simp_all add: realGeminiParsing_def\<close>)
qed

text \<open>
  Claim C7. \<^verbatim>\<open>parseFreeformTasks\<close> always returns a result, never an exception. Whenever the
  external strategy throws, the result is that of the local strategy on the same text; this
  is the case when \<^verbatim>\<open>fetch\<close> rejects, the status is not ok, the body is not JSON, the
  response holds no generated text, or \<^verbatim>\<open>JSON.parse\<close> rejects the text extracted from it.
\<close>

theorem parseFreeformTasks_fallback:
  "(\<exists>r. parseFreeformTasks world envs apiKey input = Inr r) \<and>
   (\<forall>e. realGeminiParsing world apiKey input = Inl e \<longrightarrow>
        parseFreeformTasks world envs apiKey input = Inr (FromLocal (mockGeminiParsing envs input))) \<and>
   (fetchOutcome world = FetchRejected \<or> fetchOutcome world = ResponseNotOk \<or>
    fetchOutcome world = BodyRejected \<or>
    (\<exists>data g. fetchOutcome world = BodyJson data \<and> generatedTextOf data = Inr g \<and> \<not> truthy g) \<or>
    (\<exists>data s. fetchOutcome world = BodyJson data \<and> generatedTextOf data = Inr (JStr s) \<and>
              jsonParse world (trim (extractJsonString s)) = None) \<longrightarrow>
        parseFreeformTasks world envs apiKey input = Inr (FromLocal (mockGeminiParsing envs input)))"
proof -
  have fb: "parseFreeformTasks world envs apiKey input = Inr (FromLocal (mockGeminiParsing envs input))"
    if "realGeminiParsing world apiKey input = Inl e" for e
    using that by (simp add: parseFreeformTasks_def tryCatch_def)
  have ret: "\<exists>r. parseFreeformTasks world envs apiKey input = Inr r"
    by (cases "realGeminiParsing world apiKey input")
      (simp_all add: parseFreeformTasks_def tryCatch_def)
  from fb ret realGeminiParsing_failures [of world apiKey input] show ?thesis by blast
qed

text \<open>C7 at a response whose generated text is not JSON, for the input \<^verbatim>\<open>urgent\<close>.\<close>

theorem parseFreeformTasks_fallback_witness:
  "fetchOutcome worldMalformed = BodyJson responseMalformed \<and>
   generatedTextOf responseMalformed = Inr (JStr ''Sorry, no tasks'') \<and>
   jsonParse worldMalformed (trim (extractJsonString ''Sorry, no tasks'')) = None \<and>
   parseFreeformTasks worldMalformed (\<lambda>i. env0) (Some ''key'') ''urgent''
     = Inr (FromLocal \<lparr> extractedTasks = [], ambiguousLines = [''urgent''], parsingErrors = [],
                         parseConfidence = Low \<rparr>)"
proof -
  have f: "fetchOutcome worldMalformed = BodyJson responseMalformed"
    by (simp add: worldMalformed_def)
  have g: "generatedTextOf responseMalformed = Inr (JStr ''Sorry, no tasks'')"
    by code_simp
  have np: "jsonParse worldMalformed (trim (extractJsonString ''Sorry, no tasks'')) = None"
    by (simp add: worldMalformed_def)
  have m: "mockGeminiParsing (\<lambda>i. env0) ''urgent''
     = \<lparr> extractedTasks = [], ambiguousLines = [''urgent''], parsingErrors = [],
                         parseConfidence = Low \<rparr>"
    by code_simp
  from parseFreeformTasks_fallback [of worldMalformed "\<lambda>i. env0" "Some ''key''" "''urgent''"]
    f g np m
  show ?thesis by auto
qed

lemma clampOr_range:
  assumes "lo \<le> hi" and "clampOr lo hi dflt v = Inr n"
  shows "n = NaN \<or> (\<exists>x. n = Fin x \<and> lo \<le> x \<and> x \<le> hi)"
proof -
  from assms(2) obtain m where n: "n = mathMax (Fin lo) (mathMin (Fin hi) m)"
    by (auto simp: clampOr_def bind_err_Inr_iff)
  show ?thesis
    unfolding n using assms(1) by (cases m) (auto simp: mathMax_def mathMin_def)
qed

lemma validateTask_range:
  assumes "validateTask nowMs tsk index = Inr t"
  shows "(raw_priority t = NaN \<or> (\<exists>x. raw_priority t = Fin x \<and> 1 \<le> x \<and> x \<le> 5)) \<and>
         (raw_duration t = NaN \<or> (\<exists>x. raw_duration t = Fin x \<and> 15 \<le> x \<and> x \<le> 240))"
proof -
  from assms obtain dv pv where
    d: "clampOr 15 240 60 dv = Inr (raw_duration t)" and
    p: "clampOr 1 5 3 pv = Inr (raw_priority t)"
    unfolding validateTask_def bind_err_Inr_iff by force
  from clampOr_range [OF _ d] clampOr_range [OF _ p] show ?thesis by simp
qed

text \<open>
  Claim C8 at the payload \<open>payloadHigh\<close>, whose only task has priority \<^verbatim>\<open>"high"\<close> and
  duration \<^verbatim>\<open>"an hour"\<close>: the task is constructed, and both its priority and its duration
  are \<open>NaN\<close>, outside [1, 5] and [15, 240].
\<close>

theorem validate_priority_NaN:
  "map_sum id (map (\<lambda>t. (raw_priority t, raw_duration t)) \<circ> raw_extractedTasks)
     (validateAndTransformGeminiResponse (\<lambda>k. 0) payloadHigh) = Inr [(NaN, NaN)]"
  by code_simp

text \<open>For a payload without inference blocks the validator writes the three inference keys
  with the value \<^verbatim>\<open>undefined\<close>; these are the inferences of \<open>taskG\<close>.\<close>

lemma validate_inferences_undefined:
  "map_sum id (map raw_inferences \<circ> raw_extractedTasks)
     (validateAndTransformGeminiResponse (\<lambda>k. 0) payloadPlain)
   = Inr [[(FPriority, None), (FDuration, None), (FDeadline, None)]]"
  by code_simp

end
